theory Spec2Isabelle
  imports Complex_Main
begin

section \<open>Numbers of the data frame\<close>

text \<open>
  The script \<^verbatim>\<open>OFS_CODE.py\<close> computes with pandas columns of 64-bit floats. A value of
  such a column is modelled as an exact rational, or one of the three special values
  that a division by zero produces. The sign of zero is not modelled. The operations
  below are exact; where the script's rounding matters (lines 75 and 76) the rounding is
  applied to their results, see \<open>rnd\<close>.
\<close>

datatype fval = Fin rat | PInf | NInf | NaN

fun fadd :: "fval \<Rightarrow> fval \<Rightarrow> fval" where
  "fadd NaN _ = NaN"
| "fadd _ NaN = NaN"
| "fadd (Fin a) (Fin b) = Fin (a + b)"
| "fadd PInf NInf = NaN"
| "fadd NInf PInf = NaN"
| "fadd PInf _ = PInf"
| "fadd _ PInf = PInf"
| "fadd NInf _ = NInf"
| "fadd _ NInf = NInf"

fun fmul :: "fval \<Rightarrow> fval \<Rightarrow> fval" where
  "fmul NaN _ = NaN"
| "fmul _ NaN = NaN"
| "fmul (Fin a) (Fin b) = Fin (a * b)"
| "fmul (Fin a) PInf = (if a = 0 then NaN else if 0 < a then PInf else NInf)"
| "fmul (Fin a) NInf = (if a = 0 then NaN else if 0 < a then NInf else PInf)"
| "fmul PInf (Fin b) = (if b = 0 then NaN else if 0 < b then PInf else NInf)"
| "fmul NInf (Fin b) = (if b = 0 then NaN else if 0 < b then NInf else PInf)"
| "fmul PInf PInf = PInf"
| "fmul PInf NInf = NInf"
| "fmul NInf PInf = NInf"
| "fmul NInf NInf = PInf"

text \<open>
  pandas raises nothing on a division by zero: a non-zero value over zero is an
  infinity and zero over zero is NaN.
\<close>

fun fdiv :: "fval \<Rightarrow> fval \<Rightarrow> fval" where
  "fdiv NaN _ = NaN"
| "fdiv _ NaN = NaN"
| "fdiv (Fin a) (Fin b) =
     (if b = 0 then (if a = 0 then NaN else if 0 < a then PInf else NInf)
      else Fin (a / b))"
| "fdiv (Fin a) PInf = Fin 0"
| "fdiv (Fin a) NInf = Fin 0"
| "fdiv PInf (Fin b) = (if 0 \<le> b then PInf else NInf)"
| "fdiv NInf (Fin b) = (if 0 \<le> b then NInf else PInf)"
| "fdiv PInf PInf = NaN"
| "fdiv PInf NInf = NaN"
| "fdiv NInf PInf = NaN"
| "fdiv NInf NInf = NaN"

text \<open>The order of the values that are not NaN.\<close>

fun fle :: "fval \<Rightarrow> fval \<Rightarrow> bool" where
  "fle (Fin a) (Fin b) = (a \<le> b)"
| "fle NInf _ = True"
| "fle _ PInf = True"
| "fle _ _ = False"

definition fmax :: "fval \<Rightarrow> fval \<Rightarrow> fval" where
  "fmax a b = (if fle a b then b else a)"

text \<open>\<^verbatim>\<open>math.isfinite\<close>\<close>

fun is_finite :: "fval \<Rightarrow> bool" where
  "is_finite (Fin a) = True"
| "is_finite _ = False"

subsection \<open>Rounding\<close>

text \<open>
  A float64 operation returns its exact result rounded. \<open>rnd fl\<close> applies a rounding
  \<open>fl\<close> of the rationals to a finite result and leaves the special values alone.
\<close>

fun rnd :: "(rat \<Rightarrow> rat) \<Rightarrow> fval \<Rightarrow> fval" where
  "rnd fl (Fin a) = Fin (fl a)"
| "rnd fl PInf = PInf"
| "rnd fl NInf = NInf"
| "rnd fl NaN = NaN"

text \<open>
  The rounding of float64 itself: to the nearest number of 53 significant bits, a tie to
  the even one. The range of the exponent is not modelled (no overflow to an infinity, no
  subnormal numbers).
\<close>

definition pow2 :: "int \<Rightarrow> rat" where
  "pow2 e = (if 0 \<le> e then 2 ^ nat e else 1 / 2 ^ nat (- e))"

text \<open>The number of bits of a positive integer: \<open>2 ^ (bitlen n - 1) \<le> n < 2 ^ bitlen n\<close>.\<close>

function bitlen :: "int \<Rightarrow> nat" where
  "bitlen n = (if n \<le> 0 then 0 else Suc (bitlen (n div 2)))"
  by pat_completeness auto
termination
  by (relation "measure nat") auto

text \<open>For \<open>0 < q\<close>, the exponent \<open>e\<close> with \<open>2 ^ e \<le> q < 2 ^ (e + 1)\<close>.\<close>

definition exponent :: "rat \<Rightarrow> int" where
  "exponent q =
     (let (a, b) = quotient_of q;
          e = int (bitlen a) - int (bitlen b)
      in if pow2 e \<le> q then e else e - 1)"

definition round_half_even :: "rat \<Rightarrow> int" where
  "round_half_even x =
     (let n = \<lfloor>x\<rfloor>; f = x - of_int n
      in if f < 1 / 2 then n
         else if 1 / 2 < f then n + 1
         else if even n then n else n + 1)"

definition round64 :: "rat \<Rightarrow> rat" where
  "round64 q =
     (if q = 0 then 0
      else let a = \<bar>q\<bar>; s = pow2 (exponent a - 52)
           in sgn q * (of_int (round_half_even (a / s)) * s))"

section \<open>The input table\<close>

text \<open>
  One row of \<^verbatim>\<open>rajasthan_accident_data_2018.csv\<close>. The row labels \<^verbatim>\<open>df.index\<close> are the
  positions \<open>0, 1, ...\<close> that \<^verbatim>\<open>read_csv\<close> assigns.
\<close>

record row =
  District :: string
  Accidents :: int
  Killed :: int
  Injured :: int

record dataframe =
  columns :: "string list"
  rows :: "row list"

definition index :: "row list \<Rightarrow> nat list" where
  "index df = [0..<length df]"

text \<open>\<^verbatim>\<open>Series.max()\<close> of a column of integers: NaN on an empty column.\<close>

definition col_max :: "int list \<Rightarrow> fval" where
  "col_max xs = (case xs of [] \<Rightarrow> NaN | y # ys \<Rightarrow> Fin (of_int (fold max ys y)))"

text \<open>\<^verbatim>\<open>Series.max()\<close> of a column of floats skips the NaN entries.\<close>

definition series_max :: "fval list \<Rightarrow> fval" where
  "series_max xs =
     (case filter (\<lambda>v. v \<noteq> NaN) xs of [] \<Rightarrow> NaN | y # ys \<Rightarrow> fold (\<lambda>v m. fmax m v) ys y)"

definition series_add :: "fval list \<Rightarrow> fval list \<Rightarrow> fval list" where
  "series_add xs ys = map2 fadd xs ys"

definition scale :: "rat \<Rightarrow> fval list \<Rightarrow> fval list" where
  "scale c xs = map (fmul (Fin c)) xs"

section \<open>Severity\<close>

text \<open>
  \<^verbatim>\<open>df[col] / df[col].max()\<close>, one of the three normalised columns of lines 14 to 16.
\<close>

definition sub_score :: "int list \<Rightarrow> fval list" where
  "sub_score col = map (\<lambda>k. fdiv (Fin (of_int k)) (col_max col)) col"

text \<open>
  \<^verbatim>\<open>df['Weighted_Severity'] = 0.5 * (Killed / Killed.max()) + 0.3 * (Injured / Injured.max())
       + 0.2 * (Accidents / Accidents.max())\<close>
\<close>

definition Weighted_Severity :: "row list \<Rightarrow> fval list" where
  "Weighted_Severity df =
     series_add
       (series_add (scale (1/2) (sub_score (map Killed df)))
                   (scale (3/10) (sub_score (map Injured df))))
       (scale (1/5) (sub_score (map Accidents df)))"

section \<open>The integer program\<close>

text \<open>
  The decision variables \<^verbatim>\<open>x[i]\<close> (police units) and \<^verbatim>\<open>z[i]\<close> (awareness campaigns)
  of row \<open>i\<close>, both declared with \<^verbatim>\<open>lowBound=0, cat=LpInteger\<close>.
\<close>

datatype var = Police nat | Awareness nat

text \<open>The names given to the constraints; \<open>Top5_Min_Resource i\<close> is \<^verbatim>\<open>f"Top5_Min_Resource_{i}"\<close>.\<close>

datatype cname =
    Budget_Limit
  | Max_Police
  | Max_Awareness
  | Top5_Min_Resource nat
  | Top5_Max_Resource nat
  | Jaipur_Max_Police
  | Jaipur_Max_Awareness
  | Jaipur_Min_Police
  | Jaipur_Min_Awareness
  | Max_Police_Per_District nat
  | Max_Awareness_Per_District nat

datatype sense = LE | GE

text \<open>A linear constraint: its name, the terms of its left side, its sense and its constant.\<close>

datatype constraint = Constraint cname "(int \<times> var) list" sense int

record LpProblem =
  objective :: "(fval \<times> var) list"
  constraints :: "constraint list"
  variables :: "(var \<times> int) list"

datatype error = ValueError | KeyError | PulpError | IndexError | PulpSolverError

definition cost_x :: int where "cost_x = 5"
definition cost_z :: int where "cost_z = 2"
definition budget :: int where "budget = 1800"
definition X_max :: int where "X_max = 250"
definition Z_max :: int where "Z_max = 350"
definition District_Limit :: int where "District_Limit = 30"

text \<open>
  \<^verbatim>\<open>df.sort_values(by="Weighted_Severity", ascending=False).head(5).index.tolist()\<close>.
  The sort is the library's: \<open>sort_values\<close> is given the key column and returns the row
  labels in the order of the sorted frame. It is called with the default
  \<^verbatim>\<open>kind='quicksort'\<close>, which leaves the order of rows of equal key open, so it is a
  parameter of the model; \<open>sorted_desc\<close> below says what every such sort returns.
\<close>

definition top5 :: "(fval list \<Rightarrow> nat list) \<Rightarrow> row list \<Rightarrow> nat list" where
  "top5 sort_values df = take 5 (sort_values (Weighted_Severity df))"

text \<open>
  \<^verbatim>\<open>df[df['District'] == 'Jaipur'].index[0]\<close>: the label of the first row of Jaipur; on
  an empty selection \<^verbatim>\<open>.index[0]\<close> raises IndexError.
\<close>

definition jaipur_idx :: "row list \<Rightarrow> error + nat" where
  "jaipur_idx df =
     (case filter (\<lambda>i. District (df ! i) = ''Jaipur'') (index df) of
        [] \<Rightarrow> Inl IndexError
      | i # _ \<Rightarrow> Inr i)"

definition top5_excluding_jaipur :: "(fval list \<Rightarrow> nat list) \<Rightarrow> row list \<Rightarrow> nat \<Rightarrow> nat list" where
  "top5_excluding_jaipur sort_values df j = filter (\<lambda>i. i \<noteq> j) (top5 sort_values df)"

text \<open>
  Line 40, the objective:
  \<^verbatim>\<open>lpSum(df.loc[i, 'a'] * x[i] + df.loc[i, 'c'] * z[i] for i in df.index)\<close>, where the
  columns \<^verbatim>\<open>a\<close> and \<^verbatim>\<open>c\<close> are both the severity.
\<close>

definition objective_terms :: "row list \<Rightarrow> (fval \<times> var) list" where
  "objective_terms df =
     (let a = Weighted_Severity df; c = Weighted_Severity df
      in concat (map (\<lambda>i. [(a ! i, Police i), (c ! i, Awareness i)]) (index df)))"

text \<open>Lines 44 to 48: the budget and the two totals.\<close>

definition total_constraints :: "row list \<Rightarrow> constraint list" where
  "total_constraints df =
     [Constraint Budget_Limit
        (concat (map (\<lambda>i. [(cost_x, Police i), (cost_z, Awareness i)]) (index df))) LE budget,
      Constraint Max_Police (map (\<lambda>i. (1, Police i)) (index df)) LE X_max,
      Constraint Max_Awareness (map (\<lambda>i. (1, Awareness i)) (index df)) LE Z_max]"

text \<open>Lines 54 to 56: the two constraints of each district of \<^verbatim>\<open>top5_excluding_jaipur\<close>.\<close>

definition top5_constraints :: "nat list \<Rightarrow> constraint list" where
  "top5_constraints is =
     concat (map (\<lambda>i.
       [Constraint (Top5_Min_Resource i) [(1, Police i), (1, Awareness i)] GE 1,
        Constraint (Top5_Max_Resource i) [(1, Police i), (1, Awareness i)] LE District_Limit])
       is)"

text \<open>Lines 59 to 62: the special rule for Jaipur.\<close>

definition jaipur_constraints :: "nat \<Rightarrow> constraint list" where
  "jaipur_constraints j =
     [Constraint Jaipur_Max_Police [(1, Police j)] LE 50,
      Constraint Jaipur_Max_Awareness [(1, Awareness j)] LE 40,
      Constraint Jaipur_Min_Police [(1, Police j)] GE 40,
      Constraint Jaipur_Min_Awareness [(1, Awareness j)] GE 30]"

text \<open>Lines 65 to 67: the caps of every district, Jaipur included.\<close>

definition per_district_caps :: "row list \<Rightarrow> constraint list" where
  "per_district_caps df =
     concat (map (\<lambda>i.
       [Constraint (Max_Police_Per_District i) [(1, Police i)] LE 50,
        Constraint (Max_Awareness_Per_District i) [(1, Awareness i)] LE 40])
       (index df))"

text \<open>
  Lines 22 to 67: the variables, the objective and the constraints, in the order in
  which the script adds them. Two steps can fail. At line 40 the product of a severity
  and a variable raises PulpError when the severity is NaN or infinite (pulp 2.8 and
  later refuse such a coefficient); this comes before every constraint. At line 52 the
  lookup of Jaipur raises IndexError.
\<close>

definition build_model :: "(fval list \<Rightarrow> nat list) \<Rightarrow> row list \<Rightarrow> error + LpProblem" where
  "build_model sort_values df =
     (if \<not> list_all is_finite (Weighted_Severity df) then Inl PulpError
      else case jaipur_idx df of
        Inl e \<Rightarrow> Inl e
      | Inr j \<Rightarrow>
          Inr \<lparr>objective = objective_terms df,
               constraints =
                 total_constraints df
                 @ top5_constraints (top5_excluding_jaipur sort_values df j)
                 @ jaipur_constraints j
                 @ per_district_caps df,
               variables =
                 map (\<lambda>i. (Police i, 0)) (index df) @ map (\<lambda>i. (Awareness i, 0)) (index df)\<rparr>)"

subsection \<open>What an assignment of the variables satisfies\<close>

definition lhs :: "(var \<Rightarrow> int) \<Rightarrow> (int \<times> var) list \<Rightarrow> int" where
  "lhs v ts = sum_list (map (\<lambda>(k, y). k * v y) ts)"

fun holds :: "(var \<Rightarrow> int) \<Rightarrow> constraint \<Rightarrow> bool" where
  "holds v (Constraint n ts LE b) = (lhs v ts \<le> b)"
| "holds v (Constraint n ts GE b) = (b \<le> lhs v ts)"

definition feasible :: "(var \<Rightarrow> int) \<Rightarrow> LpProblem \<Rightarrow> bool" where
  "feasible v p =
     (list_all (\<lambda>(y, lb). lb \<le> v y) (variables p) \<and> list_all (holds v) (constraints p))"

section \<open>The solver and the result table\<close>

text \<open>
  \<^verbatim>\<open>model.solve(PULP_CBC_CMD(msg=0))\<close> is the library's: the model takes its reply as
  it comes, either an exception of the solver or a status and a value for every variable.
\<close>

datatype LpStatus =
    LpStatusNotSolved
  | LpStatusOptimal
  | LpStatusInfeasible
  | LpStatusUnbounded
  | LpStatusUndefined

record solution =
  status :: LpStatus
  varValue :: "var \<Rightarrow> int"

text \<open>What the solver promises: the values of an optimal reply satisfy the program.\<close>

definition solver_contract :: "LpProblem \<Rightarrow> solution \<Rightarrow> bool" where
  "solver_contract p r = (status r = LpStatusOptimal \<longrightarrow> feasible (varValue r) p)"

record result_row = row +
  Police_Allocated :: int
  Awareness_Campaigns :: int
  Total_Impact_Score :: fval
  Normalized_Impact :: fval

definition Police_Allocated_col :: "row list \<Rightarrow> solution \<Rightarrow> int list" where
  "Police_Allocated_col df r = map (\<lambda>i. varValue r (Police i)) (index df)"

definition Awareness_Campaigns_col :: "row list \<Rightarrow> solution \<Rightarrow> int list" where
  "Awareness_Campaigns_col df r = map (\<lambda>i. varValue r (Awareness i)) (index df)"

text \<open>
  \<^verbatim>\<open>df['Police Allocated'] * df['a'] + df['Awareness Campaigns'] * df['c']\<close>: two
  products and a sum, each rounded. The rounding \<open>fl\<close> of the float64 operations of
  lines 75 and 76 is a parameter: \<open>round64\<close> is the one of the machine, and the
  identity gives the exact values.
\<close>

definition Total_Impact_col :: "(rat \<Rightarrow> rat) \<Rightarrow> row list \<Rightarrow> solution \<Rightarrow> fval list" where
  "Total_Impact_col fl df r =
     map2 (\<lambda>p q. rnd fl (fadd p q))
       (map2 (\<lambda>n a. rnd fl (fmul (Fin (of_int n)) a))
          (Police_Allocated_col df r) (Weighted_Severity df))
       (map2 (\<lambda>n c. rnd fl (fmul (Fin (of_int n)) c))
          (Awareness_Campaigns_col df r) (Weighted_Severity df))"

text \<open>
  \<^verbatim>\<open>100 * df['Total Impact Score'] / df['Total Impact Score'].max()\<close>: a product and
  a quotient, each rounded.
\<close>

definition Normalized_Impact_col :: "(rat \<Rightarrow> rat) \<Rightarrow> row list \<Rightarrow> solution \<Rightarrow> fval list" where
  "Normalized_Impact_col fl df r =
     map (\<lambda>t. rnd fl (fdiv (rnd fl (fmul (Fin 100) t)) (series_max (Total_Impact_col fl df r))))
       (Total_Impact_col fl df r)"

text \<open>Lines 73 to 76: the four new columns, read from the reply without a look at its status.\<close>

definition collect_results :: "(rat \<Rightarrow> rat) \<Rightarrow> row list \<Rightarrow> solution \<Rightarrow> result_row list" where
  "collect_results fl df r =
     map (\<lambda>i. row.extend (df ! i)
            (result_row.fields
               (Police_Allocated_col df r ! i)
               (Awareness_Campaigns_col df r ! i)
               (Total_Impact_col fl df r ! i)
               (Normalized_Impact_col fl df r ! i)))
       (index df)"

text \<open>Lines 79 to 82: the rows in the order of their total impact, largest first.\<close>

definition df_sorted :: "(fval list \<Rightarrow> nat list) \<Rightarrow> result_row list \<Rightarrow> result_row list" where
  "df_sorted sort_values out = map (\<lambda>i. out ! i) (sort_values (map Total_Impact_Score out))"

text \<open>
  The whole script. A table without the column \<^verbatim>\<open>District\<close> is refused at line 11; one
  without a count column ends at line 14 with the KeyError of the column lookup. The
  result is the sorted table that line 85 writes.
\<close>

definition run ::
  "(rat \<Rightarrow> rat) \<Rightarrow> (fval list \<Rightarrow> nat list) \<Rightarrow> (LpProblem \<Rightarrow> error + solution) \<Rightarrow> dataframe
     \<Rightarrow> error + result_row list" where
  "run fl sort_values solve d =
     (if ''District'' \<notin> set (columns d) then Inl ValueError
      else if \<not> set [''Killed'', ''Injured'', ''Accidents''] \<subseteq> set (columns d) then Inl KeyError
      else case build_model sort_values (rows d) of
             Inl e \<Rightarrow> Inl e
           | Inr model \<Rightarrow>
               (case solve model of
                  Inl e \<Rightarrow> Inl e
                | Inr r \<Rightarrow> Inr (df_sorted sort_values (collect_results fl (rows d) r))))"

subsection \<open>The order that a descending sort returns\<close>

text \<open>
  \<open>before a b\<close>: a row of key \<open>a\<close> may stand before a row of key \<open>b\<close> in a frame
  sorted with \<^verbatim>\<open>ascending=False\<close> (NaN keys go last).
\<close>

fun before :: "fval \<Rightarrow> fval \<Rightarrow> bool" where
  "before _ NaN = True"
| "before NaN _ = False"
| "before a b = fle b a"

definition sorted_desc :: "fval list \<Rightarrow> nat list \<Rightarrow> bool" where
  "sorted_desc keys order =
     (distinct order \<and> set order = set [0..<length keys]
      \<and> sorted_wrt (\<lambda>i j. before (keys ! i) (keys ! j)) order)"

text \<open>
  One sort that meets \<open>sorted_desc\<close>, by insertion, to run the model on a concrete table.
\<close>

fun insert_desc :: "fval list \<Rightarrow> nat \<Rightarrow> nat list \<Rightarrow> nat list" where
  "insert_desc keys i [] = [i]"
| "insert_desc keys i (j # js) =
     (if before (keys ! i) (keys ! j) then i # j # js else j # insert_desc keys i js)"

definition insertion_sort_values :: "fval list \<Rightarrow> nat list" where
  "insertion_sort_values keys = foldr (insert_desc keys) [0..<length keys] []"


section \<open>The rounding at some numbers\<close>

text \<open>
  \<open>round64\<close> gives the float64 nearest to one tenth, and resolves a tie to the even
  neighbour.
\<close>

lemma round64_tenth: "round64 (1 / 10) = 3602879701896397 / 36028797018963968"
  by code_simp

lemma round64_ties_to_even:
  "round64 (2 ^ 53 + 1) = 2 ^ 53 \<and> round64 (2 ^ 53 + 3) = 2 ^ 53 + 4"
  by code_simp

lemma round64_exact: "round64 0 = 0 \<and> round64 100 = 100 \<and> round64 (- 3 / 8) = - 3 / 8"
  by code_simp

section \<open>Properties of the severity score\<close>

lemma col_max_Max: "xs \<noteq> [] \<Longrightarrow> col_max xs = Fin (of_int (Max (set xs)))"
  by (cases xs) (simp_all add: col_max_def Max.set_eq_fold [symmetric])

lemma length_Weighted_Severity: "length (Weighted_Severity df) = length df"
  by (simp add: Weighted_Severity_def series_add_def scale_def sub_score_def)

lemma Weighted_Severity_nth:
  "i < length df \<Longrightarrow> Weighted_Severity df ! i =
     fadd (fadd (fmul (Fin (1/2)) (fdiv (Fin (of_int (Killed (df ! i)))) (col_max (map Killed df))))
                (fmul (Fin (3/10)) (fdiv (Fin (of_int (Injured (df ! i)))) (col_max (map Injured df)))))
          (fmul (Fin (1/5)) (fdiv (Fin (of_int (Accidents (df ! i)))) (col_max (map Accidents df))))"
  by (simp add: Weighted_Severity_def series_add_def scale_def sub_score_def)

lemma fadd_NaN_right: "fadd x NaN = NaN"
  by (cases x) simp_all

lemma fmul_NaN_right: "fmul x NaN = NaN"
  by (cases x) simp_all

lemma zero_col_max:
  assumes "col \<noteq> []" "\<forall>k\<in>set col. k = 0"
  shows "col_max col = Fin 0"
proof -
  have "Max (set col) \<in> set col" using assms(1) by (intro Max_in) simp_all
  then have "Max (set col) = 0" using assms(2) by blast
  then show ?thesis using assms(1) by (simp add: col_max_Max)
qed

lemma zero_col_ratio:
  assumes "\<forall>r\<in>set df. f r = (0::int)" "i < length df"
  shows "fdiv (Fin (of_int (f (df ! i)))) (col_max (map f df)) = NaN"
proof -
  have ne: "map f df \<noteq> []" using assms(2) by auto
  have "\<forall>k\<in>set (map f df). k = 0" using assms(1) by simp
  then have "col_max (map f df) = Fin 0" by (rule zero_col_max [OF ne])
  moreover have "f (df ! i) = 0" using assms by simp
  ultimately show ?thesis by simp
qed

lemma zero_column_severity:
  assumes "(\<forall>r\<in>set df. Killed r = 0) \<or> (\<forall>r\<in>set df. Injured r = 0)
           \<or> (\<forall>r\<in>set df. Accidents r = 0)"
    and "i < length df"
  shows "Weighted_Severity df ! i = NaN"
proof -
  note nth = Weighted_Severity_nth [OF assms(2)]
  from assms(1) consider
      (killed) "\<forall>r\<in>set df. Killed r = 0"
    | (injured) "\<forall>r\<in>set df. Injured r = 0"
    | (accidents) "\<forall>r\<in>set df. Accidents r = 0"
    by blast
  then show ?thesis
  proof cases
    case killed
    have "fdiv (Fin (of_int (Killed (df ! i)))) (col_max (map Killed df)) = NaN"
      by (rule zero_col_ratio [OF killed assms(2)])
    then show ?thesis by (simp add: nth fadd_NaN_right fmul_NaN_right)
  next
    case injured
    have "fdiv (Fin (of_int (Injured (df ! i)))) (col_max (map Injured df)) = NaN"
      by (rule zero_col_ratio [OF injured assms(2)])
    then show ?thesis by (simp add: nth fadd_NaN_right fmul_NaN_right)
  next
    case accidents
    have "fdiv (Fin (of_int (Accidents (df ! i)))) (col_max (map Accidents df)) = NaN"
      by (rule zero_col_ratio [OF accidents assms(2)])
    then show ?thesis by (simp add: nth fadd_NaN_right fmul_NaN_right)
  qed
qed

lemma jaipur_idx_Inr:
  assumes "jaipur_idx df = Inr j"
  shows "j < length df \<and> District (df ! j) = ''Jaipur''"
proof -
  from assms obtain js where "filter (\<lambda>i. District (df ! i) = ''Jaipur'') (index df) = j # js"
    by (auto simp: jaipur_idx_def split: list.splits)
  then have "j \<in> set (filter (\<lambda>i. District (df ! i) = ''Jaipur'') (index df))" by simp
  then show ?thesis by (simp add: index_def)
qed

lemma jaipur_idx_absent:
  assumes "''Jaipur'' \<notin> set (map District df)"
  shows "jaipur_idx df = Inl IndexError"
proof -
  have "District (df ! i) \<noteq> ''Jaipur''" if "i < length df" for i
    using assms that by (metis image_eqI nth_mem set_map)
  then have "filter (\<lambda>i. District (df ! i) = ''Jaipur'') (index df) = []"
    by (simp add: filter_empty_conv index_def)
  then show ?thesis by (simp add: jaipur_idx_def)
qed

lemma jaipur_idx_present:
  assumes "''Jaipur'' \<in> set (map District df)"
  shows "\<exists>j. jaipur_idx df = Inr j"
proof -
  from assms obtain i where "i < length df" "District (df ! i) = ''Jaipur''"
    by (auto simp: in_set_conv_nth)
  then have "i \<in> set (filter (\<lambda>i. District (df ! i) = ''Jaipur'') (index df))"
    by (simp add: index_def)
  then have "filter (\<lambda>i. District (df ! i) = ''Jaipur'') (index df) \<noteq> []"
    by (metis empty_iff list.set(1))
  then show ?thesis by (simp add: jaipur_idx_def split: list.splits)
qed

lemma build_model_Inl:
  "list_all is_finite (Weighted_Severity df) \<Longrightarrow> jaipur_idx df = Inl e
     \<Longrightarrow> build_model srt df = Inl e"
  by (simp add: build_model_def)

text \<open>
  Claim C2, as the code has it. Lines 14 to 16 divide by the column maximum without a
  test and raise nothing. When one of the three count columns is zero in every row, the
  scorer returns a severity column, and the severity of every district in it is NaN.
\<close>

theorem zero_column_gives_nan:
  assumes "(\<forall>r\<in>set df. Killed r = 0) \<or> (\<forall>r\<in>set df. Injured r = 0)
           \<or> (\<forall>r\<in>set df. Accidents r = 0)"
  shows "Weighted_Severity df = replicate (length df) NaN"
  using assms
  by (simp add: list_eq_iff_nth_eq length_Weighted_Severity zero_column_severity)

lemma ratio_unit:
  fixes k m :: int
  assumes "0 \<le> k" "k \<le> m" "0 < m"
  shows "0 \<le> (of_int k :: rat) / of_int m \<and> (of_int k :: rat) / of_int m \<le> 1"
  using assms by simp

lemma sub_score_attained:
  assumes "col \<noteq> []" "0 < Max (set col)"
  shows "\<exists>i<length col. sub_score col ! i = Fin 1"
proof -
  have "Max (set col) \<in> set col" using assms(1) by (intro Max_in) simp_all
  then obtain i where i: "i < length col" "col ! i = Max (set col)"
    by (auto simp: in_set_conv_nth)
  have "sub_score col ! i = Fin 1"
    using i assms by (simp add: sub_score_def col_max_Max)
  with i show ?thesis by blast
qed

text \<open>
  Claim C3. For a table that is not empty, whose counts are non-negative and whose three
  count columns each have a positive maximum: the severity of every district is the
  finite number \<open>0.5 * (killed / max killed) + 0.3 * (injured / max injured)
  + 0.2 * (accidents / max accidents)\<close>, it lies between 0 and 1, and in each of the
  three normalised columns some district has the value 1.
\<close>

theorem severity_formula_bounds:
  assumes ne: "df \<noteq> []"
    and nonneg: "\<forall>r\<in>set df. 0 \<le> Killed r \<and> 0 \<le> Injured r \<and> 0 \<le> Accidents r"
    and pos: "0 < Max (set (map Killed df))" "0 < Max (set (map Injured df))"
             "0 < Max (set (map Accidents df))"
  shows "length (Weighted_Severity df) = length df
    \<and> (\<forall>i<length df. \<exists>s.
          Weighted_Severity df ! i = Fin s
        \<and> s = 1/2 * (of_int (Killed (df ! i)) / of_int (Max (set (map Killed df))))
            + 3/10 * (of_int (Injured (df ! i)) / of_int (Max (set (map Injured df))))
            + 1/5 * (of_int (Accidents (df ! i)) / of_int (Max (set (map Accidents df))))
        \<and> 0 \<le> s \<and> s \<le> 1)
    \<and> (\<exists>i<length df. sub_score (map Killed df) ! i = Fin 1)
    \<and> (\<exists>i<length df. sub_score (map Injured df) ! i = Fin 1)
    \<and> (\<exists>i<length df. sub_score (map Accidents df) ! i = Fin 1)"
proof (intro conjI allI impI)
  show "length (Weighted_Severity df) = length df" by (rule length_Weighted_Severity)
next
  fix i assume i: "i < length df"
  let ?K = "Max (set (map Killed df))" and ?I = "Max (set (map Injured df))"
    and ?A = "Max (set (map Accidents df))"
  let ?k = "Killed (df ! i)" and ?j = "Injured (df ! i)" and ?a = "Accidents (df ! i)"
  have mem: "df ! i \<in> set df" using i by simp
  have k: "0 \<le> ?k" "?k \<le> ?K" using i nonneg mem by (auto intro!: Max_ge)
  have j: "0 \<le> ?j" "?j \<le> ?I" using i nonneg mem by (auto intro!: Max_ge)
  have a: "0 \<le> ?a" "?a \<le> ?A" using i nonneg mem by (auto intro!: Max_ge)
  have rk: "0 \<le> (of_int ?k :: rat) / of_int ?K \<and> (of_int ?k :: rat) / of_int ?K \<le> 1"
    by (rule ratio_unit [OF k pos(1)])
  have rj: "0 \<le> (of_int ?j :: rat) / of_int ?I \<and> (of_int ?j :: rat) / of_int ?I \<le> 1"
    by (rule ratio_unit [OF j pos(2)])
  have ra: "0 \<le> (of_int ?a :: rat) / of_int ?A \<and> (of_int ?a :: rat) / of_int ?A \<le> 1"
    by (rule ratio_unit [OF a pos(3)])
  define s where "s = 1/2 * ((of_int ?k :: rat) / of_int ?K) + 3/10 * (of_int ?j / of_int ?I)
     + 1/5 * (of_int ?a / of_int ?A)"
  have "Weighted_Severity df ! i = Fin s"
    using i ne pos by (simp add: Weighted_Severity_nth col_max_Max s_def)
  moreover have "0 \<le> s \<and> s \<le> 1" using rk rj ra unfolding s_def by linarith
  ultimately show "\<exists>s. Weighted_Severity df ! i = Fin s
        \<and> s = 1/2 * (of_int (Killed (df ! i)) / of_int (Max (set (map Killed df))))
            + 3/10 * (of_int (Injured (df ! i)) / of_int (Max (set (map Injured df))))
            + 1/5 * (of_int (Accidents (df ! i)) / of_int (Max (set (map Accidents df))))
        \<and> 0 \<le> s \<and> s \<le> 1"
    unfolding s_def by blast
next
  show "\<exists>i<length df. sub_score (map Killed df) ! i = Fin 1"
    using sub_score_attained [of "map Killed df"] ne pos(1) by simp
  show "\<exists>i<length df. sub_score (map Injured df) ! i = Fin 1"
    using sub_score_attained [of "map Injured df"] ne pos(2) by simp
  show "\<exists>i<length df. sub_score (map Accidents df) ! i = Fin 1"
    using sub_score_attained [of "map Accidents df"] ne pos(3) by simp
qed

text \<open>The theorem at a table of two districts.\<close>

theorem severity_formula_bounds_witness:
  "(let df = [\<lparr>District = ''Ajmer'', Accidents = 10, Killed = 4, Injured = 6\<rparr>,
              \<lparr>District = ''Jaipur'', Accidents = 20, Killed = 8, Injured = 3\<rparr>]
    in list_all (\<lambda>r. 0 \<le> Killed r \<and> 0 \<le> Injured r \<and> 0 \<le> Accidents r) df
     \<and> Max (set (map Killed df)) = 8 \<and> Max (set (map Injured df)) = 6
     \<and> Max (set (map Accidents df)) = 20
     \<and> length (Weighted_Severity df) = 2
     \<and> (\<exists>s. Weighted_Severity df ! 0 = Fin s \<and> s = 13/20 \<and> 0 \<le> s \<and> s \<le> 1)
     \<and> (\<exists>i<2. sub_score (map Killed df) ! i = Fin 1)
     \<and> (\<exists>i<2. sub_score (map Injured df) ! i = Fin 1)
     \<and> (\<exists>i<2. sub_score (map Accidents df) ! i = Fin 1))"
proof -
  let ?df = "[\<lparr>District = ''Ajmer'', Accidents = 10, Killed = 4, Injured = 6\<rparr>,
              \<lparr>District = ''Jaipur'', Accidents = 20, Killed = 8, Injured = 3\<rparr>]"
  have ne: "?df \<noteq> []" by simp
  have nonneg: "\<forall>r\<in>set ?df. 0 \<le> Killed r \<and> 0 \<le> Injured r \<and> 0 \<le> Accidents r" by simp
  have k: "Max (set (map Killed ?df)) = 8" by simp
  have i: "Max (set (map Injured ?df)) = 6" by simp
  have a: "Max (set (map Accidents ?df)) = 20" by simp
  have pos: "0 < Max (set (map Killed ?df))" "0 < Max (set (map Injured ?df))"
    "0 < Max (set (map Accidents ?df))"
    by simp_all
  note concl = severity_formula_bounds [OF ne nonneg pos]
  from concl have "\<exists>s. Weighted_Severity ?df ! 0 = Fin s
        \<and> s = 1/2 * (of_int (Killed (?df ! 0)) / of_int (Max (set (map Killed ?df))))
            + 3/10 * (of_int (Injured (?df ! 0)) / of_int (Max (set (map Injured ?df))))
            + 1/5 * (of_int (Accidents (?df ! 0)) / of_int (Max (set (map Accidents ?df))))
        \<and> 0 \<le> s \<and> s \<le> 1"
    by (metis length_greater_0_conv ne)
  then have row0: "\<exists>s. Weighted_Severity ?df ! 0 = Fin s \<and> s = 13/20 \<and> 0 \<le> s \<and> s \<le> 1"
    by (simp only: k i a) simp
  have len: "length ?df = 2" by simp
  show ?thesis
    unfolding Let_def using concl row0 k i a by (simp only: len) simp
qed

text \<open>
  A table whose column \<^verbatim>\<open>Killed\<close> is zero throughout: the scorer returns NaN for both
  districts.
\<close>

theorem zero_column_counterexample:
  "Weighted_Severity
     [\<lparr>District = ''Ajmer'', Accidents = 10, Killed = 0, Injured = 6\<rparr>,
      \<lparr>District = ''Jaipur'', Accidents = 20, Killed = 0, Injured = 3\<rparr>] = [NaN, NaN]"
  by code_simp

text \<open>The theorem at a table whose column \<^verbatim>\<open>Injured\<close> is zero throughout.\<close>

theorem zero_column_gives_nan_witness:
  "(let df = [\<lparr>District = ''Jaipur'', Accidents = 7, Killed = 2, Injured = 0\<rparr>,
              \<lparr>District = ''Kota'', Accidents = 3, Killed = 1, Injured = 0\<rparr>]
    in list_all (\<lambda>r. Injured r = 0) df
     \<and> Weighted_Severity df = [NaN, NaN])"
proof -
  let ?df = "[\<lparr>District = ''Jaipur'', Accidents = 7, Killed = 2, Injured = 0\<rparr>,
              \<lparr>District = ''Kota'', Accidents = 3, Killed = 1, Injured = 0\<rparr>]"
  have z: "(\<forall>r\<in>set ?df. Killed r = 0) \<or> (\<forall>r\<in>set ?df. Injured r = 0)
           \<or> (\<forall>r\<in>set ?df. Accidents r = 0)" by simp
  show ?thesis
    unfolding Let_def
    using zero_column_gives_nan [OF z]
    by (simp add: numeral_2_eq_2)
qed

section \<open>The insertion sort returns a descending order\<close>

text \<open>
  So the orders that the theorems below assume exist for every key column.
\<close>


lemma before_total: "before a b \<or> before b a"
  by (cases a; cases b) auto

lemma before_trans: "before a b \<Longrightarrow> before b c \<Longrightarrow> before a c"
  by (cases a; cases b; cases c) auto

lemma set_insert_desc: "set (insert_desc keys i js) = insert i (set js)"
  by (induction js) auto

lemma distinct_insert_desc:
  "distinct js \<Longrightarrow> i \<notin> set js \<Longrightarrow> distinct (insert_desc keys i js)"
  by (induction js) (auto simp: set_insert_desc)

lemma sorted_insert_desc:
  assumes "sorted_wrt (\<lambda>i j. before (keys ! i) (keys ! j)) js"
  shows "sorted_wrt (\<lambda>i j. before (keys ! i) (keys ! j)) (insert_desc keys i js)"
  using assms
proof (induction js)
  case Nil
  then show ?case by simp
next
  case (Cons j js)
  show ?case
  proof (cases "before (keys ! i) (keys ! j)")
    case True
    then have "\<forall>x\<in>set js. before (keys ! i) (keys ! x)"
      using Cons.prems by (auto intro: before_trans)
    with True Cons.prems show ?thesis by simp
  next
    case False
    then have "before (keys ! j) (keys ! i)" using before_total by blast
    with False Cons show ?thesis by (simp add: set_insert_desc)
  qed
qed

lemma foldr_insert_desc:
  assumes "distinct is"
  shows "distinct (foldr (insert_desc keys) is [])
       \<and> set (foldr (insert_desc keys) is []) = set is
       \<and> sorted_wrt (\<lambda>i j. before (keys ! i) (keys ! j)) (foldr (insert_desc keys) is [])"
  using assms
  by (induction "is") (simp_all add: set_insert_desc distinct_insert_desc sorted_insert_desc)

lemma insertion_sort_values_sorted_desc: "sorted_desc keys (insertion_sort_values keys)"
  using foldr_insert_desc [of "[0..<length keys]" keys]
  by (simp add: sorted_desc_def insertion_sort_values_def)

section \<open>Properties of the integer program\<close>

lemma build_model_constraints:
  assumes "build_model srt df = Inr p"
  shows "\<exists>j. jaipur_idx df = Inr j
       \<and> constraints p =
           total_constraints df @ top5_constraints (top5_excluding_jaipur srt df j)
           @ jaipur_constraints j @ per_district_caps df"
  using assms by (auto simp: build_model_def split: sum.splits if_splits)

lemma feasible_holds: "feasible v p \<Longrightarrow> c \<in> set (constraints p) \<Longrightarrow> holds v c"
  by (simp add: feasible_def list_all_iff)

lemma lhs_budget:
  "lhs v (concat (map (\<lambda>i. [(a, Police i), (b, Awareness i)]) is)) =
     a * sum_list (map (\<lambda>i. v (Police i)) is) + b * sum_list (map (\<lambda>i. v (Awareness i)) is)"
  by (induction "is") (simp_all add: lhs_def algebra_simps)

text \<open>
  Claim C6. When the model has been built and the solver's reply is optimal (so that, by
  the solver's contract, its values satisfy the program), the allocation read at lines 73
  and 74 keeps the budget: \<open>cost_x * sum(police) + cost_z * sum(awareness) \<le> budget\<close>,
  that is \<open>5 * sum(police) + 2 * sum(awareness) \<le> 1800\<close>, an inequality of integers.
\<close>

theorem budget_holds:
  assumes "build_model srt df = Inr p"
    and "solver_contract p r"
    and "status r = LpStatusOptimal"
  shows "cost_x * sum_list (Police_Allocated_col df r)
       + cost_z * sum_list (Awareness_Campaigns_col df r) \<le> budget"
proof -
  have feas: "feasible (varValue r) p"
    using assms(2,3) by (simp add: solver_contract_def)
  have "Constraint Budget_Limit
          (concat (map (\<lambda>i. [(cost_x, Police i), (cost_z, Awareness i)]) (index df))) LE budget
        \<in> set (constraints p)"
    using build_model_constraints [OF assms(1)] by (auto simp: total_constraints_def)
  from feasible_holds [OF feas this] show ?thesis
    by (simp add: lhs_budget Police_Allocated_col_def Awareness_Campaigns_col_def)
qed

text \<open>
  Claim C7. For a district \<open>i\<close> of \<^verbatim>\<open>top5_excluding_jaipur\<close> (the first five rows by
  severity without Jaipur), an optimal reply allocates between 1 and \<^verbatim>\<open>District_Limit\<close>
  (30) resources in all: \<open>1 \<le> police + awareness \<le> 30\<close>.
\<close>

theorem priority_bounds_hold:
  assumes "build_model srt df = Inr p"
    and "solver_contract p r"
    and "status r = LpStatusOptimal"
    and "jaipur_idx df = Inr j"
    and "i \<in> set (top5_excluding_jaipur srt df j)"
    and "i < length df"
  shows "1 \<le> Police_Allocated_col df r ! i + Awareness_Campaigns_col df r ! i
       \<and> Police_Allocated_col df r ! i + Awareness_Campaigns_col df r ! i \<le> District_Limit"
proof -
  have feas: "feasible (varValue r) p"
    using assms(2,3) by (simp add: solver_contract_def)
  from build_model_constraints [OF assms(1)] assms(4)
  have cs: "set (top5_constraints (top5_excluding_jaipur srt df j)) \<subseteq> set (constraints p)"
    by auto
  have "Constraint (Top5_Min_Resource i) [(1, Police i), (1, Awareness i)] GE 1
        \<in> set (top5_constraints (top5_excluding_jaipur srt df j))"
    using assms(5) by (auto simp: top5_constraints_def)
  with cs feas have lo: "holds (varValue r)
      (Constraint (Top5_Min_Resource i) [(1, Police i), (1, Awareness i)] GE 1)"
    by (blast intro: feasible_holds)
  have "Constraint (Top5_Max_Resource i) [(1, Police i), (1, Awareness i)] LE District_Limit
        \<in> set (top5_constraints (top5_excluding_jaipur srt df j))"
    using assms(5) by (auto simp: top5_constraints_def)
  with cs feas have hi: "holds (varValue r)
      (Constraint (Top5_Max_Resource i) [(1, Police i), (1, Awareness i)] LE District_Limit)"
    by (blast intro: feasible_holds)
  from lo hi assms(6) show ?thesis
    by (simp add: lhs_def Police_Allocated_col_def Awareness_Campaigns_col_def index_def)
qed

text \<open>
  Claim C8, as the code has it. When no row has the district Jaipur and every severity
  is finite (so that the objective of line 40 is accepted), the lookup of line 52 raises
  IndexError: no model is returned, and the run of a table with all its columns ends with
  IndexError whatever the solver would reply.
\<close>

theorem missing_jaipur_index_error:
  assumes "''Jaipur'' \<notin> set (map District (rows d))"
    and "list_all is_finite (Weighted_Severity (rows d))"
    and "''District'' \<in> set (columns d)"
    and "set [''Killed'', ''Injured'', ''Accidents''] \<subseteq> set (columns d)"
  shows "build_model srt (rows d) = Inl IndexError \<and> run fl srt solve d = Inl IndexError"
proof -
  have "build_model srt (rows d) = Inl IndexError"
    by (rule build_model_Inl [OF assms(2) jaipur_idx_absent [OF assms(1)]])
  then show ?thesis using assms(3,4) by (simp add: run_def)
qed

text \<open>
  A table without Jaipur: the error of the model builder is the IndexError of the lookup.
\<close>

theorem missing_jaipur_counterexample:
  "build_model insertion_sort_values
     [\<lparr>District = ''Ajmer'', Accidents = 10, Killed = 4, Injured = 6\<rparr>,
      \<lparr>District = ''Kota'', Accidents = 5, Killed = 8, Injured = 1\<rparr>] = Inl IndexError"
  by code_simp

text \<open>
  The theorem at that table.
\<close>

theorem missing_jaipur_index_error_witness:
  "(let d = \<lparr>columns = [''District'', ''Accidents'', ''Killed'', ''Injured''],
              rows = [\<lparr>District = ''Ajmer'', Accidents = 10, Killed = 4, Injured = 6\<rparr>,
                      \<lparr>District = ''Kota'', Accidents = 5, Killed = 8, Injured = 1\<rparr>]\<rparr>;
        solve = (\<lambda>p. Inr \<lparr>status = LpStatusOptimal, varValue = (\<lambda>y. 0)\<rparr>)
    in ''Jaipur'' \<notin> set (map District (rows d))
     \<and> Weighted_Severity (rows d) = [Fin (3 / 4), Fin (13 / 20)]
     \<and> build_model insertion_sort_values (rows d) = Inl IndexError
     \<and> run round64 insertion_sort_values solve d = Inl IndexError)"
proof -
  let ?d = "\<lparr>columns = [''District'', ''Accidents'', ''Killed'', ''Injured''],
              rows = [\<lparr>District = ''Ajmer'', Accidents = 10, Killed = 4, Injured = 6\<rparr>,
                      \<lparr>District = ''Kota'', Accidents = 5, Killed = 8, Injured = 1\<rparr>]\<rparr>"
  have a: "''Jaipur'' \<notin> set (map District (rows ?d))" by simp
  have s: "Weighted_Severity (rows ?d) = [Fin (3 / 4), Fin (13 / 20)]" by code_simp
  have f: "list_all is_finite (Weighted_Severity (rows ?d))" unfolding s by simp
  have b: "''District'' \<in> set (columns ?d)" by simp
  have c: "set [''Killed'', ''Injured'', ''Accidents''] \<subseteq> set (columns ?d)" by simp
  show ?thesis
    unfolding Let_def
    using missing_jaipur_index_error [OF a f b c, of insertion_sort_values round64] a s
    by simp
qed

text \<open>
  Claim C5. In every model that is built, whatever the order of the sort: the four
  constraints of Jaipur (police in \<open>[40, 50]\<close>, awareness in \<open>[30, 40]\<close>) are in the
  constraint set, next to the two general caps of Jaipur's own row (police \<open>\<le> 50\<close>,
  awareness \<le> 40); Jaipur is never in \<^verbatim>\<open>top5_excluding_jaipur\<close>, so the rule of the priority
  set does not touch it; every feasible assignment keeps Jaipur within its four bounds;
  Jaipur's bounds imply the general caps (they never relax them), and they are different
  from them: the assignment that is zero everywhere keeps the caps and breaks the bounds.
\<close>

theorem jaipur_bounds_layered:
  assumes "build_model srt df = Inr p"
    and "jaipur_idx df = Inr j"
  shows "set [Constraint Jaipur_Max_Police [(1, Police j)] LE 50,
              Constraint Jaipur_Max_Awareness [(1, Awareness j)] LE 40,
              Constraint Jaipur_Min_Police [(1, Police j)] GE 40,
              Constraint Jaipur_Min_Awareness [(1, Awareness j)] GE 30] \<subseteq> set (constraints p)
       \<and> set [Constraint (Max_Police_Per_District j) [(1, Police j)] LE 50,
               Constraint (Max_Awareness_Per_District j) [(1, Awareness j)] LE 40]
           \<subseteq> set (constraints p)
       \<and> j \<notin> set (top5_excluding_jaipur srt df j)
       \<and> (\<forall>v. feasible v p \<longrightarrow>
             40 \<le> v (Police j) \<and> v (Police j) \<le> 50 \<and> 30 \<le> v (Awareness j) \<and> v (Awareness j) \<le> 40)
       \<and> (\<forall>v. list_all (holds v) (jaipur_constraints j) \<longrightarrow>
             holds v (Constraint (Max_Police_Per_District j) [(1, Police j)] LE 50)
           \<and> holds v (Constraint (Max_Awareness_Per_District j) [(1, Awareness j)] LE 40))
       \<and> (\<exists>v. holds v (Constraint (Max_Police_Per_District j) [(1, Police j)] LE 50)
           \<and> holds v (Constraint (Max_Awareness_Per_District j) [(1, Awareness j)] LE 40)
           \<and> (\<forall>y. 0 \<le> v y)
           \<and> \<not> list_all (holds v) (jaipur_constraints j))"
proof -
  from build_model_constraints [OF assms(1)] assms(2)
  have cs: "constraints p =
           total_constraints df @ top5_constraints (top5_excluding_jaipur srt df j)
           @ jaipur_constraints j @ per_district_caps df"
    by auto
  have j: "j < length df" using jaipur_idx_Inr [OF assms(2)] by simp
  have sub: "set (jaipur_constraints j) \<subseteq> set (constraints p)"
    unfolding cs by auto
  then have 1: "set [Constraint Jaipur_Max_Police [(1, Police j)] LE 50,
              Constraint Jaipur_Max_Awareness [(1, Awareness j)] LE 40,
              Constraint Jaipur_Min_Police [(1, Police j)] GE 40,
              Constraint Jaipur_Min_Awareness [(1, Awareness j)] GE 30] \<subseteq> set (constraints p)"
    by (simp add: jaipur_constraints_def)
  have "set [Constraint (Max_Police_Per_District j) [(1, Police j)] LE 50,
             Constraint (Max_Awareness_Per_District j) [(1, Awareness j)] LE 40]
          \<subseteq> set (per_district_caps df)"
    using j by (auto simp: per_district_caps_def index_def)
  then have 2: "set [Constraint (Max_Police_Per_District j) [(1, Police j)] LE 50,
               Constraint (Max_Awareness_Per_District j) [(1, Awareness j)] LE 40]
           \<subseteq> set (constraints p)"
    by (auto simp: cs)
  have 3: "j \<notin> set (top5_excluding_jaipur srt df j)"
    by (simp add: top5_excluding_jaipur_def)
  have 4: "40 \<le> v (Police j) \<and> v (Police j) \<le> 50 \<and> 30 \<le> v (Awareness j) \<and> v (Awareness j) \<le> 40"
    if "feasible v p" for v
  proof -
    have "list_all (holds v) (jaipur_constraints j)"
      using that sub by (auto simp: feasible_def list_all_iff)
    then show ?thesis by (simp add: jaipur_constraints_def lhs_def)
  qed
  have 5: "holds v (Constraint (Max_Police_Per_District j) [(1, Police j)] LE 50)
           \<and> holds v (Constraint (Max_Awareness_Per_District j) [(1, Awareness j)] LE 40)"
    if "list_all (holds v) (jaipur_constraints j)" for v
    using that by (simp add: jaipur_constraints_def lhs_def)
  have 6: "holds (\<lambda>y. 0) (Constraint (Max_Police_Per_District j) [(1, Police j)] LE 50)
           \<and> holds (\<lambda>y. 0) (Constraint (Max_Awareness_Per_District j) [(1, Awareness j)] LE 40)
           \<and> (\<forall>y. 0 \<le> (\<lambda>y. 0::int) y)
           \<and> \<not> list_all (holds (\<lambda>y. 0)) (jaipur_constraints j)"
    by (simp add: jaipur_constraints_def lhs_def)
  from 1 2 3 4 5 6 show ?thesis by blast
qed


text \<open>
  The theorem at a table of three districts and an optimal reply.
\<close>

theorem budget_holds_witness:
  "(let df = [\<lparr>District = ''Ajmer'', Accidents = 10, Killed = 4, Injured = 6\<rparr>,
              \<lparr>District = ''Jaipur'', Accidents = 20, Killed = 8, Injured = 3\<rparr>,
              \<lparr>District = ''Kota'', Accidents = 5, Killed = 8, Injured = 1\<rparr>];
        r = \<lparr>status = LpStatusOptimal,
             varValue = (\<lambda>y. case y of Police i \<Rightarrow> if i = 1 then 40 else 1
                                     | Awareness i \<Rightarrow> if i = 1 then 30 else 0)\<rparr>;
        p = projr (build_model insertion_sort_values df)
    in build_model insertion_sort_values df = Inr p
     \<and> solver_contract p r
     \<and> status r = LpStatusOptimal
     \<and> sum_list (Police_Allocated_col df r) = 42
     \<and> sum_list (Awareness_Campaigns_col df r) = 30
     \<and> cost_x * sum_list (Police_Allocated_col df r)
        + cost_z * sum_list (Awareness_Campaigns_col df r) \<le> budget)"
proof -
  let ?df = "[\<lparr>District = ''Ajmer'', Accidents = 10, Killed = 4, Injured = 6\<rparr>,
              \<lparr>District = ''Jaipur'', Accidents = 20, Killed = 8, Injured = 3\<rparr>,
              \<lparr>District = ''Kota'', Accidents = 5, Killed = 8, Injured = 1\<rparr>]"
  let ?r = "\<lparr>status = LpStatusOptimal,
             varValue = (\<lambda>y. case y of Police i \<Rightarrow> if i = 1 then 40 else 1
                                     | Awareness i \<Rightarrow> if i = 1 then 30 else 0)\<rparr>"
  let ?p = "projr (build_model insertion_sort_values ?df)"
  have b: "build_model insertion_sort_values ?df = Inr ?p" by code_simp
  have c: "solver_contract ?p ?r" by code_simp
  have o: "status ?r = LpStatusOptimal" by simp
  have x: "sum_list (Police_Allocated_col ?df ?r) = 42" by code_simp
  have z: "sum_list (Awareness_Campaigns_col ?df ?r) = 30" by code_simp
  show ?thesis
    unfolding Let_def using budget_holds [OF b c o] b c o x z by blast
qed

text \<open>
  The theorem at the same table, for its first district.
\<close>

theorem priority_bounds_hold_witness:
  "(let df = [\<lparr>District = ''Ajmer'', Accidents = 10, Killed = 4, Injured = 6\<rparr>,
              \<lparr>District = ''Jaipur'', Accidents = 20, Killed = 8, Injured = 3\<rparr>,
              \<lparr>District = ''Kota'', Accidents = 5, Killed = 8, Injured = 1\<rparr>];
        r = \<lparr>status = LpStatusOptimal,
             varValue = (\<lambda>y. case y of Police i \<Rightarrow> if i = 1 then 40 else 1
                                     | Awareness i \<Rightarrow> if i = 1 then 30 else 0)\<rparr>;
        p = projr (build_model insertion_sort_values df)
    in build_model insertion_sort_values df = Inr p
     \<and> solver_contract p r
     \<and> status r = LpStatusOptimal
     \<and> jaipur_idx df = Inr 1
     \<and> top5_excluding_jaipur insertion_sort_values df 1 = [0, 2]
     \<and> 1 \<le> Police_Allocated_col df r ! 0 + Awareness_Campaigns_col df r ! 0
     \<and> Police_Allocated_col df r ! 0 + Awareness_Campaigns_col df r ! 0 \<le> District_Limit)"
proof -
  let ?df = "[\<lparr>District = ''Ajmer'', Accidents = 10, Killed = 4, Injured = 6\<rparr>,
              \<lparr>District = ''Jaipur'', Accidents = 20, Killed = 8, Injured = 3\<rparr>,
              \<lparr>District = ''Kota'', Accidents = 5, Killed = 8, Injured = 1\<rparr>]"
  let ?r = "\<lparr>status = LpStatusOptimal,
             varValue = (\<lambda>y. case y of Police i \<Rightarrow> if i = 1 then 40 else 1
                                     | Awareness i \<Rightarrow> if i = 1 then 30 else 0)\<rparr>"
  let ?p = "projr (build_model insertion_sort_values ?df)"
  have b: "build_model insertion_sort_values ?df = Inr ?p" by code_simp
  have c: "solver_contract ?p ?r" by code_simp
  have o: "status ?r = LpStatusOptimal" by simp
  have j: "jaipur_idx ?df = Inr 1" by code_simp
  have t: "top5_excluding_jaipur insertion_sort_values ?df 1 = [0, 2]" by code_simp
  have m: "0 \<in> set (top5_excluding_jaipur insertion_sort_values ?df 1)"
    unfolding t by simp
  have l: "0 < length ?df" by simp
  show ?thesis
    unfolding Let_def using priority_bounds_hold [OF b c o j m l] b c o j t by blast
qed

text \<open>
  The theorem at the table of three districts and a feasible assignment.
\<close>

theorem jaipur_bounds_layered_witness:
  "(let df = [\<lparr>District = ''Ajmer'', Accidents = 10, Killed = 4, Injured = 6\<rparr>,
              \<lparr>District = ''Jaipur'', Accidents = 20, Killed = 8, Injured = 3\<rparr>,
              \<lparr>District = ''Kota'', Accidents = 5, Killed = 8, Injured = 1\<rparr>];
        v = (\<lambda>y. case y of Police i \<Rightarrow> if i = 1 then 40 else 1
                          | Awareness i \<Rightarrow> if i = 1 then 30 else (0::int));
        p = projr (build_model insertion_sort_values df)
    in build_model insertion_sort_values df = Inr p
     \<and> jaipur_idx df = Inr 1
     \<and> feasible v p
     \<and> 40 \<le> v (Police 1) \<and> v (Police 1) \<le> 50 \<and> 30 \<le> v (Awareness 1) \<and> v (Awareness 1) \<le> 40
     \<and> Constraint Jaipur_Min_Police [(1, Police 1)] GE 40 \<in> set (constraints p)
     \<and> Constraint (Max_Police_Per_District 1) [(1, Police 1)] LE 50 \<in> set (constraints p))"
proof -
  let ?df = "[\<lparr>District = ''Ajmer'', Accidents = 10, Killed = 4, Injured = 6\<rparr>,
              \<lparr>District = ''Jaipur'', Accidents = 20, Killed = 8, Injured = 3\<rparr>,
              \<lparr>District = ''Kota'', Accidents = 5, Killed = 8, Injured = 1\<rparr>]"
  let ?v = "\<lambda>y. case y of Police i \<Rightarrow> if i = 1 then 40 else 1
                          | Awareness i \<Rightarrow> if i = 1 then 30 else (0::int)"
  let ?p = "projr (build_model insertion_sort_values ?df)"
  have b: "build_model insertion_sort_values ?df = Inr ?p" by code_simp
  have j: "jaipur_idx ?df = Inr 1" by code_simp
  have f: "feasible ?v ?p" by code_simp
  note concl = jaipur_bounds_layered [OF b j]
  from concl f
  have v: "40 \<le> ?v (Police 1) \<and> ?v (Police 1) \<le> 50 \<and> 30 \<le> ?v (Awareness 1) \<and> ?v (Awareness 1) \<le> 40"
    by blast
  from concl have m: "Constraint Jaipur_Min_Police [(1, Police 1)] GE 40 \<in> set (constraints ?p)
     \<and> Constraint (Max_Police_Per_District 1) [(1, Police 1)] LE 50 \<in> set (constraints ?p)"
    by simp
  show ?thesis
    unfolding Let_def using b j f v m by blast
qed

lemma sorted_desc_length:
  assumes "sorted_desc keys order"
  shows "length order = length keys"
proof -
  from assms have d: "distinct order" and s: "set order = {0..<length keys}"
    by (simp_all add: sorted_desc_def)
  show ?thesis using distinct_card [OF d] s by simp
qed

text \<open>
  Claim C10, as the code has it. The priority set is the list of the first five rows of
  the sorted frame (all the rows, when the table has fewer than five) with Jaipur
  filtered out afterwards. For a sort that returns the rows in descending order of
  severity: when Jaipur is in that list, the priority set has one district fewer than the
  list, \<open>min 5 n - 1\<close> for a table of \<open>n\<close> districts, which is four as soon as the table
  has five; no row ranked sixth or later is in it; and a model that is built carries the
  constraints of those districts only.
\<close>

theorem exempt_in_top5_leaves_four:
  assumes "sorted_desc (Weighted_Severity df) (srt (Weighted_Severity df))"
    and "jaipur_idx df = Inr j"
    and "j \<in> set (top5 srt df)"
  shows "top5_excluding_jaipur srt df j =
           filter (\<lambda>i. i \<noteq> j) (take 5 (srt (Weighted_Severity df)))
       \<and> length (top5 srt df) = min 5 (length df)
       \<and> length (top5_excluding_jaipur srt df j) = min 5 (length df) - 1
       \<and> (5 \<le> length df \<longrightarrow> length (top5_excluding_jaipur srt df j) = 4)
       \<and> (\<forall>k. 5 \<le> k \<and> k < length df \<longrightarrow>
             srt (Weighted_Severity df) ! k \<notin> set (top5_excluding_jaipur srt df j))
       \<and> (\<forall>p. build_model srt df = Inr p \<longrightarrow>
             constraints p =
                 total_constraints df
                 @ top5_constraints (filter (\<lambda>i. i \<noteq> j) (take 5 (srt (Weighted_Severity df))))
                 @ jaipur_constraints j @ per_district_caps df)"
proof -
  let ?order = "srt (Weighted_Severity df)"
  have len: "length ?order = length df"
    using sorted_desc_length [OF assms(1)] by (simp add: length_Weighted_Severity)
  have dist: "distinct ?order" using assms(1) by (simp add: sorted_desc_def)
  have def: "top5_excluding_jaipur srt df j = filter (\<lambda>i. i \<noteq> j) (take 5 ?order)"
    by (simp add: top5_excluding_jaipur_def top5_def)
  have l5: "length (top5 srt df) = min 5 (length df)"
    using len by (simp add: top5_def min.commute)
  have d5: "distinct (top5 srt df)" using dist by (simp add: top5_def)
  have "filter (\<lambda>i. i \<noteq> j) (top5 srt df) = removeAll j (top5 srt df)"
    unfolding removeAll_filter_not_eq by (rule filter_cong) auto
  also have "\<dots> = remove1 j (top5 srt df)"
    using d5 by (simp add: distinct_remove1_removeAll)
  finally have "length (top5_excluding_jaipur srt df j) = length (remove1 j (top5 srt df))"
    by (simp add: top5_excluding_jaipur_def)
  then have l4: "length (top5_excluding_jaipur srt df j) = min 5 (length df) - 1"
    using assms(3) l5 by (simp add: length_remove1)
  then have l4': "5 \<le> length df \<longrightarrow> length (top5_excluding_jaipur srt df j) = 4"
    by simp
  have late: "?order ! k \<notin> set (top5_excluding_jaipur srt df j)"
    if "5 \<le> k \<and> k < length df" for k
  proof
    assume "?order ! k \<in> set (top5_excluding_jaipur srt df j)"
    then have "?order ! k \<in> set (take 5 ?order)" by (simp add: def)
    then obtain m where m: "m < 5" "m < length ?order" "?order ! m = ?order ! k"
      by (auto simp: in_set_conv_nth)
    with dist that len have "m = k" by (simp add: nth_eq_iff_index_eq)
    with m(1) that show False by simp
  qed
  have built: "constraints p =
                 total_constraints df
                 @ top5_constraints (filter (\<lambda>i. i \<noteq> j) (take 5 ?order))
                 @ jaipur_constraints j @ per_district_caps df"
    if "build_model srt df = Inr p" for p
    using build_model_constraints [OF that] assms(2) by (auto simp: def)
  from def l5 l4 l4' late built show ?thesis by blast
qed

text \<open>
  A table of three districts: Jaipur is among the first five rows of the sorted frame and
  the priority set has two districts, not four.
\<close>

theorem exempt_in_top5_counterexample:
  "jaipur_idx
     [\<lparr>District = ''Ajmer'', Accidents = 10, Killed = 4, Injured = 6\<rparr>,
      \<lparr>District = ''Jaipur'', Accidents = 20, Killed = 8, Injured = 3\<rparr>,
      \<lparr>District = ''Kota'', Accidents = 5, Killed = 8, Injured = 1\<rparr>] = Inr 1
   \<and> top5 insertion_sort_values
     [\<lparr>District = ''Ajmer'', Accidents = 10, Killed = 4, Injured = 6\<rparr>,
      \<lparr>District = ''Jaipur'', Accidents = 20, Killed = 8, Injured = 3\<rparr>,
      \<lparr>District = ''Kota'', Accidents = 5, Killed = 8, Injured = 1\<rparr>] = [1, 0, 2]
   \<and> top5_excluding_jaipur insertion_sort_values
     [\<lparr>District = ''Ajmer'', Accidents = 10, Killed = 4, Injured = 6\<rparr>,
      \<lparr>District = ''Jaipur'', Accidents = 20, Killed = 8, Injured = 3\<rparr>,
      \<lparr>District = ''Kota'', Accidents = 5, Killed = 8, Injured = 1\<rparr>] 1 = [0, 2]
   \<and> length (top5_excluding_jaipur insertion_sort_values
     [\<lparr>District = ''Ajmer'', Accidents = 10, Killed = 4, Injured = 6\<rparr>,
      \<lparr>District = ''Jaipur'', Accidents = 20, Killed = 8, Injured = 3\<rparr>,
      \<lparr>District = ''Kota'', Accidents = 5, Killed = 8, Injured = 1\<rparr>] 1) = 2"
  by code_simp

text \<open>
  The theorem at a table of six districts in which Jaipur ranks first: the priority set is
  the next four, and the district ranked sixth is left out.
\<close>

theorem exempt_in_top5_leaves_four_witness:
  "(let df = [\<lparr>District = ''Ajmer'', Accidents = 10, Killed = 4, Injured = 6\<rparr>,
              \<lparr>District = ''Alwar'', Accidents = 12, Killed = 6, Injured = 9\<rparr>,
              \<lparr>District = ''Jaipur'', Accidents = 20, Killed = 8, Injured = 3\<rparr>,
              \<lparr>District = ''Kota'', Accidents = 5, Killed = 8, Injured = 1\<rparr>,
              \<lparr>District = ''Sikar'', Accidents = 2, Killed = 1, Injured = 1\<rparr>,
              \<lparr>District = ''Tonk'', Accidents = 8, Killed = 2, Injured = 4\<rparr>]
    in sorted_desc (Weighted_Severity df) (insertion_sort_values (Weighted_Severity df))
     \<and> jaipur_idx df = Inr 2
     \<and> top5 insertion_sort_values df = [2, 1, 3, 0, 5]
     \<and> top5_excluding_jaipur insertion_sort_values df 2 = [1, 3, 0, 5]
     \<and> length (top5_excluding_jaipur insertion_sort_values df 2) = 4
     \<and> insertion_sort_values (Weighted_Severity df) ! 5 = 4
     \<and> 4 \<notin> set (top5_excluding_jaipur insertion_sort_values df 2))"
proof -
  let ?df = "[\<lparr>District = ''Ajmer'', Accidents = 10, Killed = 4, Injured = 6\<rparr>,
              \<lparr>District = ''Alwar'', Accidents = 12, Killed = 6, Injured = 9\<rparr>,
              \<lparr>District = ''Jaipur'', Accidents = 20, Killed = 8, Injured = 3\<rparr>,
              \<lparr>District = ''Kota'', Accidents = 5, Killed = 8, Injured = 1\<rparr>,
              \<lparr>District = ''Sikar'', Accidents = 2, Killed = 1, Injured = 1\<rparr>,
              \<lparr>District = ''Tonk'', Accidents = 8, Killed = 2, Injured = 4\<rparr>]"
  have s: "sorted_desc (Weighted_Severity ?df) (insertion_sort_values (Weighted_Severity ?df))"
    by (rule insertion_sort_values_sorted_desc)
  have n: "5 \<le> length ?df" by simp
  have j: "jaipur_idx ?df = Inr 2" by code_simp
  have t: "top5 insertion_sort_values ?df = [2, 1, 3, 0, 5]" by code_simp
  have m: "2 \<in> set (top5 insertion_sort_values ?df)" unfolding t by simp
  have e: "top5_excluding_jaipur insertion_sort_values ?df 2 = [1, 3, 0, 5]" by code_simp
  have k: "insertion_sort_values (Weighted_Severity ?df) ! 5 = 4" by code_simp
  note concl = exempt_in_top5_leaves_four [OF s j m]
  from concl n have l: "length (top5_excluding_jaipur insertion_sort_values ?df 2) = 4" by blast
  from concl have a: "\<forall>k. 5 \<le> k \<and> k < length ?df \<longrightarrow>
      insertion_sort_values (Weighted_Severity ?df) ! k
        \<notin> set (top5_excluding_jaipur insertion_sort_values ?df 2)"
    by blast
  have "insertion_sort_values (Weighted_Severity ?df) ! 5
      \<notin> set (top5_excluding_jaipur insertion_sort_values ?df 2)"
    by (rule a [rule_format]) simp
  then have x: "4 \<notin> set (top5_excluding_jaipur insertion_sort_values ?df 2)"
    unfolding k .
  show ?thesis
    unfolding Let_def using s j t e l k x by blast
qed

section \<open>Properties of the result table\<close>

lemma length_Police_Allocated_col: "length (Police_Allocated_col df r) = length df"
  by (simp add: Police_Allocated_col_def index_def)

lemma length_Awareness_Campaigns_col: "length (Awareness_Campaigns_col df r) = length df"
  by (simp add: Awareness_Campaigns_col_def index_def)

lemma length_Total_Impact_col: "length (Total_Impact_col fl df r) = length df"
  by (simp add: Total_Impact_col_def length_Police_Allocated_col
      length_Awareness_Campaigns_col length_Weighted_Severity)

lemma length_Normalized_Impact_col: "length (Normalized_Impact_col fl df r) = length df"
  by (simp add: Normalized_Impact_col_def length_Total_Impact_col)

lemma length_collect_results: "length (collect_results fl df r) = length df"
  by (simp add: collect_results_def index_def)

lemma collect_results_nth:
  assumes "i < length df"
  shows "Police_Allocated (collect_results fl df r ! i) = Police_Allocated_col df r ! i"
    and "Awareness_Campaigns (collect_results fl df r ! i) = Awareness_Campaigns_col df r ! i"
    and "Total_Impact_Score (collect_results fl df r ! i) = Total_Impact_col fl df r ! i"
    and "Normalized_Impact (collect_results fl df r ! i) = Normalized_Impact_col fl df r ! i"
    and "District (collect_results fl df r ! i) = District (df ! i)"
  using assms by (simp_all add: collect_results_def index_def row.defs result_row.defs)

lemma map_Police_Allocated:
  "map Police_Allocated (collect_results fl df r) = Police_Allocated_col df r"
  by (simp add: list_eq_iff_nth_eq length_collect_results length_Police_Allocated_col
      collect_results_nth)

lemma map_Awareness_Campaigns:
  "map Awareness_Campaigns (collect_results fl df r) = Awareness_Campaigns_col df r"
  by (simp add: list_eq_iff_nth_eq length_collect_results length_Awareness_Campaigns_col
      collect_results_nth)

lemma map_Total_Impact_Score:
  "map Total_Impact_Score (collect_results fl df r) = Total_Impact_col fl df r"
  by (simp add: list_eq_iff_nth_eq length_collect_results length_Total_Impact_col
      collect_results_nth)

lemma collect_results_status: "collect_results fl df (r\<lparr>status := s\<rparr>) = collect_results fl df r"
  by (simp add: collect_results_def Police_Allocated_col_def Awareness_Campaigns_col_def
      Total_Impact_col_def Normalized_Impact_col_def)

text \<open>
  Claim C1, as the code has it. Lines 70 to 76 never look at the status of the reply. When
  the table has its columns, the model is built and the solver replies at all, the run
  returns the result table, whose two allocation columns are the values of the reply; the
  table is the same whatever status \<open>s\<close> the reply carries.
\<close>

theorem status_never_read:
  assumes "''District'' \<in> set (columns d)"
    and "set [''Killed'', ''Injured'', ''Accidents''] \<subseteq> set (columns d)"
    and "build_model srt (rows d) = Inr p"
    and "solve p = Inr r"
  shows "run fl srt solve d = Inr (df_sorted srt (collect_results fl (rows d) r))
       \<and> collect_results fl (rows d) (r\<lparr>status := s\<rparr>) = collect_results fl (rows d) r
       \<and> map Police_Allocated (collect_results fl (rows d) r)
           = map (\<lambda>i. varValue r (Police i)) (index (rows d))
       \<and> map Awareness_Campaigns (collect_results fl (rows d) r)
           = map (\<lambda>i. varValue r (Awareness i)) (index (rows d))"
proof -
  have "run fl srt solve d = Inr (df_sorted srt (collect_results fl (rows d) r))"
    using assms by (simp add: run_def)
  moreover have "map Police_Allocated (collect_results fl (rows d) r)
           = map (\<lambda>i. varValue r (Police i)) (index (rows d))"
    by (simp add: map_Police_Allocated Police_Allocated_col_def)
  moreover have "map Awareness_Campaigns (collect_results fl (rows d) r)
           = map (\<lambda>i. varValue r (Awareness i)) (index (rows d))"
    by (simp add: map_Awareness_Campaigns Awareness_Campaigns_col_def)
  ultimately show ?thesis by (simp add: collect_results_status)
qed

text \<open>
  A reply of status \<^verbatim>\<open>LpStatusInfeasible\<close>: the run does not fail, and the allocations of
  the result table are the values that came with the reply. The two impact columns are
  shown with exact arithmetic (the identity for the rounding).
\<close>

theorem status_counterexample:
  "run (\<lambda>q. q) insertion_sort_values
     (\<lambda>p. Inr \<lparr>status = LpStatusInfeasible,
                varValue = (\<lambda>y. case y of Police i \<Rightarrow> int i + 7 | Awareness i \<Rightarrow> 3)\<rparr>)
     \<lparr>columns = [''District'', ''Accidents'', ''Killed'', ''Injured''],
              rows = [\<lparr>District = ''Ajmer'', Accidents = 10, Killed = 4, Injured = 6\<rparr>,
                      \<lparr>District = ''Jaipur'', Accidents = 20, Killed = 8, Injured = 3\<rparr>,
                      \<lparr>District = ''Kota'', Accidents = 5, Killed = 8, Injured = 1\<rparr>]\<rparr> =
   Inr [\<lparr>District = ''Jaipur'', Accidents = 20, Killed = 8, Injured = 3,
         Police_Allocated = 8, Awareness_Campaigns = 3,
         Total_Impact_Score = Fin (187 / 20), Normalized_Impact = Fin 100\<rparr>,
        \<lparr>District = ''Kota'', Accidents = 5, Killed = 8, Injured = 1,
         Police_Allocated = 9, Awareness_Campaigns = 3,
         Total_Impact_Score = Fin (36 / 5), Normalized_Impact = Fin (14400 / 187)\<rparr>,
        \<lparr>District = ''Ajmer'', Accidents = 10, Killed = 4, Injured = 6,
         Police_Allocated = 7, Awareness_Campaigns = 3,
         Total_Impact_Score = Fin (13 / 2), Normalized_Impact = Fin (13000 / 187)\<rparr>]"
  by code_simp

text \<open>
  The theorem at that table and that reply, with the rounding of float64.
\<close>

theorem status_never_read_witness:
  "(let d = \<lparr>columns = [''District'', ''Accidents'', ''Killed'', ''Injured''],
              rows = [\<lparr>District = ''Ajmer'', Accidents = 10, Killed = 4, Injured = 6\<rparr>,
                      \<lparr>District = ''Jaipur'', Accidents = 20, Killed = 8, Injured = 3\<rparr>,
                      \<lparr>District = ''Kota'', Accidents = 5, Killed = 8, Injured = 1\<rparr>]\<rparr>;
        r = \<lparr>status = LpStatusInfeasible,
             varValue = (\<lambda>y. case y of Police i \<Rightarrow> int i + 7 | Awareness i \<Rightarrow> 3)\<rparr>;
        solve = (\<lambda>p. Inr r);
        p = projr (build_model insertion_sort_values (rows d))
    in build_model insertion_sort_values (rows d) = Inr p
     \<and> status r = LpStatusInfeasible
     \<and> run round64 insertion_sort_values solve d
         = Inr (df_sorted insertion_sort_values (collect_results round64 (rows d) r))
     \<and> collect_results round64 (rows d) (r\<lparr>status := LpStatusOptimal\<rparr>)
         = collect_results round64 (rows d) r
     \<and> map Police_Allocated (collect_results round64 (rows d) r) = [7, 8, 9]
     \<and> map Awareness_Campaigns (collect_results round64 (rows d) r) = [3, 3, 3])"
proof -
  let ?d = "\<lparr>columns = [''District'', ''Accidents'', ''Killed'', ''Injured''],
              rows = [\<lparr>District = ''Ajmer'', Accidents = 10, Killed = 4, Injured = 6\<rparr>,
                      \<lparr>District = ''Jaipur'', Accidents = 20, Killed = 8, Injured = 3\<rparr>,
                      \<lparr>District = ''Kota'', Accidents = 5, Killed = 8, Injured = 1\<rparr>]\<rparr>"
  let ?r = "\<lparr>status = LpStatusInfeasible,
             varValue = (\<lambda>y. case y of Police i \<Rightarrow> int i + 7 | Awareness i \<Rightarrow> 3)\<rparr>"
  let ?solve = "\<lambda>p::LpProblem. (Inr ?r :: error + solution)"
  let ?p = "projr (build_model insertion_sort_values (rows ?d))"
  have a: "''District'' \<in> set (columns ?d)" by simp
  have b: "set [''Killed'', ''Injured'', ''Accidents''] \<subseteq> set (columns ?d)" by simp
  have c: "build_model insertion_sort_values (rows ?d) = Inr ?p" by code_simp
  have e: "?solve ?p = Inr ?r" by simp
  have x: "map (\<lambda>i. varValue ?r (Police i)) (index (rows ?d)) = [7, 8, 9]" by code_simp
  have z: "map (\<lambda>i. varValue ?r (Awareness i)) (index (rows ?d)) = [3, 3, 3]" by code_simp
  have s: "status ?r = LpStatusInfeasible" by simp
  note concl = status_never_read [where d = ?d and srt = insertion_sort_values and p = ?p
      and solve = ?solve and r = ?r and s = LpStatusOptimal and fl = round64, OF a b c e]
  show ?thesis
    unfolding Let_def using concl c s x z by metis
qed

subsection \<open>The largest total impact\<close>

lemma fle_refl: "a \<noteq> NaN \<Longrightarrow> fle a a"
  by (cases a) simp_all

lemma fle_total: "a \<noteq> NaN \<Longrightarrow> b \<noteq> NaN \<Longrightarrow> fle a b \<or> fle b a"
  by (cases a; cases b) auto

lemma fle_trans: "fle a b \<Longrightarrow> fle b c \<Longrightarrow> b \<noteq> NaN \<Longrightarrow> fle a c"
  by (cases a; cases b; cases c) auto

lemma fle_antisym: "fle a b \<Longrightarrow> fle b a \<Longrightarrow> a \<noteq> NaN \<Longrightarrow> b \<noteq> NaN \<Longrightarrow> a = b"
  by (cases a; cases b) auto

lemma fold_fmax:
  assumes "y \<noteq> NaN" "NaN \<notin> set ys"
  shows "fold (\<lambda>v m. fmax m v) ys y \<in> set (y # ys)
       \<and> (\<forall>v\<in>set (y # ys). fle v (fold (\<lambda>v m. fmax m v) ys y))"
  using assms
proof (induction ys arbitrary: y)
  case Nil
  then show ?case by (simp add: fle_refl)
next
  case (Cons z zs)
  let ?y = "fmax y z"
  let ?m = "fold (\<lambda>v m. fmax m v) zs ?y"
  have z: "z \<noteq> NaN" and zs: "NaN \<notin> set zs" using Cons.prems(2) by auto
  have y': "?y \<noteq> NaN" using Cons.prems(1) z by (simp add: fmax_def)
  have mem: "?y \<in> {y, z}" by (simp add: fmax_def)
  have le: "fle y ?y \<and> fle z ?y"
    using fle_total [OF Cons.prems(1) z] fle_refl [OF z] fle_refl [OF Cons.prems(1)]
    by (auto simp: fmax_def)
  from Cons.IH [OF y' zs]
  have ih: "?m \<in> set (?y # zs)" "\<forall>v\<in>set (?y # zs). fle v ?m" by simp_all
  have top: "fle ?y ?m" using ih(2) by simp
  have "fle y ?m" "fle z ?m"
    using le top y' by (blast intro: fle_trans)+
  moreover have "?m \<in> set (y # z # zs)" using ih(1) mem by auto
  ultimately show ?case using ih(2) by simp
qed

lemma series_max_NaN: "(\<forall>v\<in>set xs. v = NaN) \<Longrightarrow> series_max xs = NaN"
proof -
  assume "\<forall>v\<in>set xs. v = NaN"
  then have "filter (\<lambda>v. v \<noteq> NaN) xs = []" by (simp add: filter_empty_conv)
  then show ?thesis by (simp add: series_max_def)
qed

lemma series_max_greatest:
  assumes "\<exists>v\<in>set xs. v \<noteq> NaN"
  shows "series_max xs \<in> set xs \<and> series_max xs \<noteq> NaN
       \<and> (\<forall>v\<in>set xs. v \<noteq> NaN \<longrightarrow> fle v (series_max xs))"
proof -
  from assms have "filter (\<lambda>v. v \<noteq> NaN) xs \<noteq> []" by (simp add: filter_empty_conv)
  then obtain y ys where f: "filter (\<lambda>v. v \<noteq> NaN) xs = y # ys" by (cases "filter (\<lambda>v. v \<noteq> NaN) xs") auto
  have mem: "set (y # ys) = {v \<in> set xs. v \<noteq> NaN}"
    using f by (metis set_filter)
  then have y: "y \<noteq> NaN" and ys: "NaN \<notin> set ys" by auto
  have m: "series_max xs = fold (\<lambda>v m. fmax m v) ys y" by (simp add: series_max_def f)
  from fold_fmax [OF y ys] mem show ?thesis unfolding m by auto
qed

lemma series_max_unique:
  assumes "k \<in> set xs" "k \<noteq> NaN" "\<forall>v\<in>set xs. v \<noteq> NaN \<longrightarrow> fle v k"
  shows "series_max xs = k"
proof -
  have ex: "\<exists>v\<in>set xs. v \<noteq> NaN" using assms(1,2) by blast
  note g = series_max_greatest [OF ex]
  have "fle k (series_max xs)" using g assms(1,2) by blast
  moreover have "fle (series_max xs) k" using g assms(3) by blast
  ultimately show ?thesis using g assms(2) by (blast intro: fle_antisym [symmetric])
qed

lemma before_NaN_left: "before NaN b \<Longrightarrow> b = NaN"
  by (cases b) simp_all

lemma before_fle: "before a b \<Longrightarrow> b \<noteq> NaN \<Longrightarrow> a \<noteq> NaN \<and> fle b a"
  by (cases a; cases b) simp_all

lemma sorted_desc_hd:
  assumes "sorted_desc keys order" "\<exists>v\<in>set keys. v \<noteq> NaN"
  shows "order \<noteq> [] \<and> hd order < length keys \<and> keys ! hd order = series_max keys"
proof -
  from assms(1) have d: "distinct order" and s: "set order = {0..<length keys}"
    and w: "sorted_wrt (\<lambda>i j. before (keys ! i) (keys ! j)) order"
    by (simp_all add: sorted_desc_def)
  from assms(2) have "keys \<noteq> []" by auto
  then have "set order \<noteq> {}" unfolding s by simp
  then have ne: "order \<noteq> []" by simp
  then obtain h t where o: "order = h # t" by (cases order) auto
  have "h \<in> set order" unfolding o by simp
  then have h: "h < length keys" unfolding s by simp
  have "\<forall>j\<in>set t. before (keys ! h) (keys ! j)"
    using w unfolding o by simp
  then have first: "before (keys ! h) (keys ! j)" if "j \<in> set t" for j
    using that by blast
  have st: "insert h (set t) = {0..<length keys}"
    using s unfolding o by simp
  have all: "i = h \<or> i \<in> set t" if "i < length keys" for i
  proof -
    have "i \<in> {0..<length keys}" using that by simp
    then have "i \<in> insert h (set t)" unfolding st .
    then show ?thesis by blast
  qed
  have notnan: "keys ! h \<noteq> NaN"
  proof
    assume n: "keys ! h = NaN"
    have "keys ! i = NaN" if "i < length keys" for i
    proof (cases "i = h")
      case True
      then show ?thesis using n by simp
    next
      case False
      then have "i \<in> set t" using all [OF that] by simp
      from first [OF this] show ?thesis unfolding n by (rule before_NaN_left)
    qed
    then have "\<forall>v\<in>set keys. v = NaN" by (auto simp: in_set_conv_nth)
    with assms(2) show False by blast
  qed
  have ub: "fle (keys ! i) (keys ! h)" if "i < length keys" "keys ! i \<noteq> NaN" for i
  proof (cases "i = h")
    case True
    then show ?thesis using notnan by (simp add: fle_refl)
  next
    case False
    then have "i \<in> set t" using all [OF that(1)] by simp
    from before_fle [OF first [OF this] that(2)] show ?thesis by simp
  qed
  have "series_max keys = keys ! h"
  proof (rule series_max_unique)
    show "keys ! h \<in> set keys" using h by simp
    show "keys ! h \<noteq> NaN" by (rule notnan)
    show "\<forall>v\<in>set keys. v \<noteq> NaN \<longrightarrow> fle v (keys ! h)"
      using ub by (auto simp: in_set_conv_nth)
  qed
  then show ?thesis using ne h o by simp
qed

lemma Normalized_Impact_col_nth:
  "i < length df \<Longrightarrow> Normalized_Impact_col fl df r ! i =
     rnd fl (fdiv (rnd fl (fmul (Fin 100) (Total_Impact_col fl df r ! i)))
               (series_max (Total_Impact_col fl df r)))"
  by (simp add: Normalized_Impact_col_def length_Total_Impact_col)

lemma hd_df_sorted:
  assumes "sorted_desc (Total_Impact_col fl df r) (srt (Total_Impact_col fl df r))"
    and "series_max (Total_Impact_col fl df r) = Fin m"
  shows "hd (srt (Total_Impact_col fl df r)) < length df
       \<and> Total_Impact_col fl df r ! hd (srt (Total_Impact_col fl df r)) = Fin m
       \<and> hd (df_sorted srt (collect_results fl df r))
           = collect_results fl df r ! hd (srt (Total_Impact_col fl df r))"
proof -
  let ?T = "Total_Impact_col fl df r"
  have ex: "\<exists>v\<in>set ?T. v \<noteq> NaN"
    using series_max_NaN [of ?T] assms(2) by auto
  from sorted_desc_hd [OF assms(1) ex] assms(2)
  have h: "srt ?T \<noteq> []" "hd (srt ?T) < length df" "?T ! hd (srt ?T) = Fin m"
    by (simp_all add: length_Total_Impact_col)
  have "hd (df_sorted srt (collect_results fl df r)) = collect_results fl df r ! hd (srt ?T)"
    using h(1) by (simp add: df_sorted_def map_Total_Impact_Score hd_map)
  with h show ?thesis by simp
qed

text \<open>
  Two roundings of relative error at most \<open>u\<close> leave the quotient \<open>(100 * m) / m\<close>
  within \<open>100 * (2 * u + u * u)\<close> of 100.
\<close>

lemma rounded_quotient_near_100:
  fixes m u y w :: rat
  assumes "m \<noteq> 0"
    and "\<bar>y - 100 * m\<bar> \<le> u * \<bar>100 * m\<bar>"
    and "\<bar>w - y / m\<bar> \<le> u * \<bar>y / m\<bar>"
  shows "\<bar>w - 100\<bar> \<le> 100 * (2 * u + u * u)"
proof -
  have mpos: "0 < \<bar>m\<bar>" using assms(1) by simp
  have "0 \<le> u * \<bar>100 * m\<bar>" using assms(2) abs_ge_zero [of "y - 100 * m"] by linarith
  then have u0: "0 \<le> u" using mpos by (simp add: zero_le_mult_iff abs_mult)
  have "y / m - 100 = (y - 100 * m) / m" using assms(1) by (simp add: field_simps)
  then have "\<bar>y / m - 100\<bar> = \<bar>y - 100 * m\<bar> / \<bar>m\<bar>" by (simp add: abs_divide)
  also have "\<dots> \<le> (u * \<bar>100 * m\<bar>) / \<bar>m\<bar>"
    using assms(2) mpos by (simp add: divide_right_mono)
  also have "\<dots> = 100 * u" using mpos by (simp add: abs_mult)
  finally have d: "\<bar>y / m - 100\<bar> \<le> 100 * u" .
  then have b: "\<bar>y / m\<bar> \<le> 100 + 100 * u" by linarith
  have "u * \<bar>y / m\<bar> \<le> u * (100 + 100 * u)" by (rule mult_left_mono [OF b u0])
  with assms(3) have "\<bar>w - y / m\<bar> \<le> u * (100 + 100 * u)" by linarith
  with d have "\<bar>w - 100\<bar> \<le> u * (100 + 100 * u) + 100 * u" by linarith
  then show ?thesis by (simp add: algebra_simps)
qed

text \<open>
  Claim C9, as the code has it. Line 76 divides by the largest total impact without a
  test and raises nothing, and its two operations round. Let the largest total impact be
  the finite number \<open>m\<close>, the rows be sorted in descending order of total impact, and the
  two roundings of line 76 at \<open>m\<close> have relative error at most \<open>u\<close> (for float64,
  \<open>u = 2\<^sup>-\<^sup>5\<^sup>3\<close>). The first row of the sorted table has total impact \<open>m\<close>. When \<open>m\<close> is
  zero its normalised impact is NaN. Otherwise it is the rounded quotient of the rounded
  product \<open>100 * m\<close> by \<open>m\<close>, a number within \<open>100 * (2 * u + u * u)\<close> of 100. The same
  holds of every district of total impact \<open>m\<close>.
\<close>

theorem normalized_impact_of_top:
  assumes "sorted_desc (Total_Impact_col fl df r) (srt (Total_Impact_col fl df r))"
    and "series_max (Total_Impact_col fl df r) = Fin m"
    and "\<bar>fl (100 * m) - 100 * m\<bar> \<le> u * \<bar>100 * m\<bar>"
    and "\<bar>fl (fl (100 * m) / m) - fl (100 * m) / m\<bar> \<le> u * \<bar>fl (100 * m) / m\<bar>"
  shows "Total_Impact_Score (hd (df_sorted srt (collect_results fl df r))) = Fin m
       \<and> Normalized_Impact (hd (df_sorted srt (collect_results fl df r)))
           = (if m = 0 then NaN else Fin (fl (fl (100 * m) / m)))
       \<and> (m \<noteq> 0 \<longrightarrow> \<bar>fl (fl (100 * m) / m) - 100\<bar> \<le> 100 * (2 * u + u * u))
       \<and> (\<forall>i<length df. Total_Impact_col fl df r ! i = Fin m \<longrightarrow>
            Normalized_Impact_col fl df r ! i
              = (if m = 0 then NaN else Fin (fl (fl (100 * m) / m))))"
proof -
  let ?T = "Total_Impact_col fl df r"
  have zero: "fl 0 = 0" if "m = 0" using assms(3) that by simp
  have each: "Normalized_Impact_col fl df r ! i
      = (if m = 0 then NaN else Fin (fl (fl (100 * m) / m)))"
    if "i < length df" "?T ! i = Fin m" for i
    using that assms(2) zero by (simp add: Normalized_Impact_col_nth)
  from hd_df_sorted [where srt = srt, OF assms(1,2)]
  have h: "hd (srt ?T) < length df" "?T ! hd (srt ?T) = Fin m"
    "hd (df_sorted srt (collect_results fl df r)) = collect_results fl df r ! hd (srt ?T)"
    by simp_all
  have top: "Total_Impact_Score (hd (df_sorted srt (collect_results fl df r))) = Fin m"
    using h by (simp add: collect_results_nth)
  have norm: "Normalized_Impact (hd (df_sorted srt (collect_results fl df r)))
           = (if m = 0 then NaN else Fin (fl (fl (100 * m) / m)))"
    using h each [OF h(1,2)] by (simp add: collect_results_nth)
  have near: "\<bar>fl (fl (100 * m) / m) - 100\<bar> \<le> 100 * (2 * u + u * u)" if "m \<noteq> 0"
    by (rule rounded_quotient_near_100 [OF that assms(3,4)])
  from top norm near each show ?thesis by blast
qed

text \<open>
  Two runs with the rounding of float64. In the first the reply allocates nothing: every
  total impact is zero, the run does not fail, and the normalised impact of every
  district, the first one included, is NaN. In the second the largest total impact is
  43.400000000000006, that of Jaipur, and the normalised impact of Jaipur, the first row,
  is 100.00000000000001 and not 100.
\<close>

theorem zero_impact_counterexample:
  "run round64 insertion_sort_values
     (\<lambda>p. Inr \<lparr>status = LpStatusOptimal, varValue = (\<lambda>y. 0)\<rparr>)
     \<lparr>columns = [''District'', ''Accidents'', ''Killed'', ''Injured''],
      rows = [\<lparr>District = ''Ajmer'', Accidents = 10, Killed = 4, Injured = 6\<rparr>,
              \<lparr>District = ''Jaipur'', Accidents = 20, Killed = 8, Injured = 3\<rparr>,
              \<lparr>District = ''Kota'', Accidents = 5, Killed = 8, Injured = 1\<rparr>]\<rparr> =
   Inr [\<lparr>District = ''Ajmer'', Accidents = 10, Killed = 4, Injured = 6,
         Police_Allocated = 0, Awareness_Campaigns = 0,
         Total_Impact_Score = Fin 0, Normalized_Impact = NaN\<rparr>,
        \<lparr>District = ''Jaipur'', Accidents = 20, Killed = 8, Injured = 3,
         Police_Allocated = 0, Awareness_Campaigns = 0,
         Total_Impact_Score = Fin 0, Normalized_Impact = NaN\<rparr>,
        \<lparr>District = ''Kota'', Accidents = 5, Killed = 8, Injured = 1,
         Police_Allocated = 0, Awareness_Campaigns = 0,
         Total_Impact_Score = Fin 0, Normalized_Impact = NaN\<rparr>]
   \<and> run round64 insertion_sort_values
     (\<lambda>p. Inr \<lparr>status = LpStatusOptimal,
                varValue = (\<lambda>y. case y of Police i \<Rightarrow> if i = 1 then 40 else 1
                                        | Awareness i \<Rightarrow> if i = 1 then 30 else 0)\<rparr>)
     \<lparr>columns = [''District'', ''Accidents'', ''Killed'', ''Injured''],
      rows = [\<lparr>District = ''Ajmer'', Accidents = 10, Killed = 4, Injured = 6\<rparr>,
              \<lparr>District = ''Jaipur'', Accidents = 6, Killed = 2, Injured = 5\<rparr>,
              \<lparr>District = ''Kota'', Accidents = 1, Killed = 1, Injured = 1\<rparr>]\<rparr> =
   Inr [\<lparr>District = ''Jaipur'', Accidents = 6, Killed = 2, Injured = 5,
         Police_Allocated = 40, Awareness_Campaigns = 30,
         Total_Impact_Score = Fin (1527001748655309 / 35184372088832),
         Normalized_Impact = Fin (7036874417766401 / 70368744177664)\<rparr>,
        \<lparr>District = ''Ajmer'', Accidents = 10, Killed = 4, Injured = 6,
         Police_Allocated = 1, Awareness_Campaigns = 0,
         Total_Impact_Score = Fin 1,
         Normalized_Impact = Fin (5188478833376147 / 2251799813685248)\<rparr>,
        \<lparr>District = ''Kota'', Accidents = 1, Killed = 1, Injured = 1,
         Police_Allocated = 1, Awareness_Campaigns = 0,
         Total_Impact_Score = Fin (3512807709348987 / 18014398509481984),
         Normalized_Impact = Fin (8094026980066789 / 18014398509481984)\<rparr>]
   \<and> (7036874417766401 / 70368744177664 :: rat) \<noteq> 100"
  by code_simp

text \<open>
  The theorem at the second table, with the rounding of float64 and \<open>u = 2\<^sup>-\<^sup>5\<^sup>3\<close>: Jaipur
  comes first, and its normalised impact is 100.00000000000001.
\<close>

theorem normalized_impact_of_top_witness:
  "(let df = [\<lparr>District = ''Ajmer'', Accidents = 10, Killed = 4, Injured = 6\<rparr>,
              \<lparr>District = ''Jaipur'', Accidents = 6, Killed = 2, Injured = 5\<rparr>,
              \<lparr>District = ''Kota'', Accidents = 1, Killed = 1, Injured = 1\<rparr>];
        r = \<lparr>status = LpStatusOptimal,
             varValue = (\<lambda>y. case y of Police i \<Rightarrow> if i = 1 then 40 else 1
                                     | Awareness i \<Rightarrow> if i = 1 then 30 else 0)\<rparr>;
        m = (1527001748655309 / 35184372088832 :: rat);
        u = (1 / 2 ^ 53 :: rat)
    in sorted_desc (Total_Impact_col round64 df r)
         (insertion_sort_values (Total_Impact_col round64 df r))
     \<and> series_max (Total_Impact_col round64 df r) = Fin m
     \<and> \<bar>round64 (100 * m) - 100 * m\<bar> \<le> u * \<bar>100 * m\<bar>
     \<and> \<bar>round64 (round64 (100 * m) / m) - round64 (100 * m) / m\<bar>
         \<le> u * \<bar>round64 (100 * m) / m\<bar>
     \<and> District (hd (df_sorted insertion_sort_values (collect_results round64 df r)))
         = ''Jaipur''
     \<and> Total_Impact_Score (hd (df_sorted insertion_sort_values (collect_results round64 df r)))
         = Fin m
     \<and> Normalized_Impact (hd (df_sorted insertion_sort_values (collect_results round64 df r)))
         = Fin (7036874417766401 / 70368744177664)
     \<and> \<bar>7036874417766401 / 70368744177664 - 100\<bar> \<le> 100 * (2 * u + u * u))"
proof -
  let ?df = "[\<lparr>District = ''Ajmer'', Accidents = 10, Killed = 4, Injured = 6\<rparr>,
              \<lparr>District = ''Jaipur'', Accidents = 6, Killed = 2, Injured = 5\<rparr>,
              \<lparr>District = ''Kota'', Accidents = 1, Killed = 1, Injured = 1\<rparr>]"
  let ?r = "\<lparr>status = LpStatusOptimal,
             varValue = (\<lambda>y. case y of Police i \<Rightarrow> if i = 1 then 40 else 1
                                     | Awareness i \<Rightarrow> if i = 1 then 30 else 0)\<rparr>"
  let ?m = "1527001748655309 / 35184372088832 :: rat"
  let ?u = "1 / 2 ^ 53 :: rat"
  have s: "sorted_desc (Total_Impact_col round64 ?df ?r)
      (insertion_sort_values (Total_Impact_col round64 ?df ?r))"
    by (rule insertion_sort_values_sorted_desc)
  have m: "series_max (Total_Impact_col round64 ?df ?r) = Fin ?m" by code_simp
  have y: "round64 (100 * ?m) = 4771880464547841 / 1099511627776" by code_simp
  have w: "round64 (round64 (100 * ?m) / ?m) = 7036874417766401 / 70368744177664"
    by code_simp
  have e1: "\<bar>round64 (100 * ?m) - 100 * ?m\<bar> \<le> ?u * \<bar>100 * ?m\<bar>"
    unfolding y by simp
  have e2: "\<bar>round64 (round64 (100 * ?m) / ?m) - round64 (100 * ?m) / ?m\<bar>
         \<le> ?u * \<bar>round64 (100 * ?m) / ?m\<bar>"
    unfolding w unfolding y by simp
  have d: "District (hd (df_sorted insertion_sort_values (collect_results round64 ?df ?r)))
      = ''Jaipur''"
    by code_simp
  have nz: "?m \<noteq> 0" by simp
  note concl = normalized_impact_of_top [where srt = insertion_sort_values and fl = round64
      and u = ?u, OF s m e1 e2]
  from concl nz
  have h: "Total_Impact_Score
        (hd (df_sorted insertion_sort_values (collect_results round64 ?df ?r))) = Fin ?m
     \<and> Normalized_Impact
        (hd (df_sorted insertion_sort_values (collect_results round64 ?df ?r)))
         = Fin (round64 (round64 (100 * ?m) / ?m))
     \<and> \<bar>round64 (round64 (100 * ?m) / ?m) - 100\<bar> \<le> 100 * (2 * ?u + ?u * ?u)"
    by metis
  show ?thesis
    unfolding Let_def using s m e1 e2 d h [unfolded w] by blast
qed


end
